theory Spec2Isabelle
  imports Complex_Main
begin

section \<open>Values, errors and helpers\<close>

text \<open>
  A request is the untyped mapping the agents receive. Its field values range over the
  scalar values a decoded request can carry: \<open>None\<close>, booleans, integers, numbers with a
  fractional part and text. Arrays and nested objects as field values are outside the
  model. Python's \<open>float\<close> is read as an exact real number throughout: rounding error,
  overflow, infinities and NaN of request fields are outside the model. Text is a list of
  8-bit characters and is meant to hold ASCII.
\<close>

datatype pyval = PNone | PBool bool | PInt int | PFloat real | PStr string

type_synonym request = "string \<rightharpoonup> pyval"

text \<open>
  The exceptions of the source. \<open>ValueError\<close> carries the literal part of its message;
  the text interpolated from a caught exception is not modelled. \<open>GatewayError\<close> is
  whatever the generation gateway raises.
\<close>

datatype error = KeyError string | TypeError | ValueError string | GatewayError string

definition bnd :: "error + 'a \<Rightarrow> ('a \<Rightarrow> error + 'b) \<Rightarrow> error + 'b" where
  "bnd m f = (case m of Inl e \<Rightarrow> Inl e | Inr x \<Rightarrow> f x)"

text \<open>\<open>data[k]\<close>: a missing key raises \<open>KeyError\<close>.\<close>

definition getitem :: "request \<Rightarrow> string \<Rightarrow> error + pyval" where
  "getitem d k = (case d k of None \<Rightarrow> Inl (KeyError k) | Some v \<Rightarrow> Inr v)"

text \<open>\<open>isinstance(v, (int, float))\<close>; \<open>bool\<close> is a subclass of \<open>int\<close>.\<close>

fun num_of :: "pyval \<Rightarrow> real option" where
  "num_of (PInt n) = Some (real_of_int n)"
| "num_of (PFloat r) = Some r"
| "num_of (PBool b) = Some (if b then 1 else 0)"
| "num_of PNone = None"
| "num_of (PStr s) = None"

text \<open>Arithmetic or ordering of a field against a float: a non-number raises \<open>TypeError\<close>.\<close>

definition as_number :: "pyval \<Rightarrow> error + real" where
  "as_number v = (case num_of v of None \<Rightarrow> Inl TypeError | Some x \<Rightarrow> Inr x)"

text \<open>Truthiness of a value (\<open>bool(v)\<close>).\<close>

fun truthy :: "pyval \<Rightarrow> bool" where
  "truthy PNone = False"
| "truthy (PBool b) = b"
| "truthy (PInt n) = (n \<noteq> 0)"
| "truthy (PFloat r) = (r \<noteq> 0)"
| "truthy (PStr s) = (s \<noteq> [])"

text \<open>\<open>int(x)\<close> of a float truncates toward zero.\<close>

definition py_int :: "real \<Rightarrow> int" where
  "py_int x = (if 0 \<le> x then \<lfloor>x\<rfloor> else \<lceil>x\<rceil>)"

text \<open>
  \<open>base ** e\<close> for a float base. Every base used below is positive, where the float power
  is the real power.
\<close>

definition py_pow :: "real \<Rightarrow> real \<Rightarrow> real" where
  "py_pow b e = b powr e"

text \<open>\<open>table.get(key, default)\<close> on a dictionary with text keys.\<close>

fun dict_get :: "(string \<times> real) list \<Rightarrow> pyval \<Rightarrow> real \<Rightarrow> real" where
  "dict_get tbl (PStr s) dflt = (case map_of tbl s of None \<Rightarrow> dflt | Some v \<Rightarrow> v)"
| "dict_get tbl v dflt = dflt"

text \<open>\<open>key in table\<close>.\<close>

fun dict_mem :: "(string \<times> real) list \<Rightarrow> pyval \<Rightarrow> bool" where
  "dict_mem tbl (PStr s) = (s \<in> set (map fst tbl))"
| "dict_mem tbl v = False"

subsection \<open>Text\<close>

definition is_digit :: "char \<Rightarrow> bool" where
  "is_digit c = (c \<in> set ''0123456789'')"

definition is_space :: "char \<Rightarrow> bool" where
  "is_space c = (c \<in> set [CHR '' '', CHR 0x09, CHR 0x0A, CHR 0x0B, CHR 0x0C, CHR 0x0D,
                            CHR 0x1C, CHR 0x1D, CHR 0x1E, CHR 0x1F])"

definition is_alpha :: "char \<Rightarrow> bool" where
  "is_alpha c = (c \<in> set ''abcdefghijklmnopqrstuvwxyzABCDEFGHIJKLMNOPQRSTUVWXYZ'')"

text \<open>\<open>s.strip()\<close>\<close>

definition strip :: "string \<Rightarrow> string" where
  "strip s = rev (dropWhile is_space (rev (dropWhile is_space s)))"

text \<open>\<open>s.lower()\<close>\<close>

definition lower_char :: "char \<Rightarrow> char" where
  "lower_char c =
     (case map_of (zip ''ABCDEFGHIJKLMNOPQRSTUVWXYZ'' ''abcdefghijklmnopqrstuvwxyz'') c of
        None \<Rightarrow> c | Some l \<Rightarrow> l)"

definition lower :: "string \<Rightarrow> string" where
  "lower s = map lower_char s"

text \<open>\<open>s.startswith(p)\<close>, \<open>s.endswith(p)\<close> and \<open>p in s\<close>.\<close>

fun startswith :: "string \<Rightarrow> string \<Rightarrow> bool" where
  "startswith s [] = True"
| "startswith [] (p # ps) = False"
| "startswith (c # cs) (p # ps) = (c = p \<and> startswith cs ps)"

definition endswith :: "string \<Rightarrow> string \<Rightarrow> bool" where
  "endswith s p = startswith (rev s) (rev p)"

fun contains :: "string \<Rightarrow> string \<Rightarrow> bool" where
  "contains [] p = (p = [])"
| "contains (c # cs) p = (startswith (c # cs) p \<or> contains cs p)"

section \<open>Market data\<close>

text \<open>
  One row of the marketplace table. \<open>load_data\<close> never raises (it falls back to the
  built-in rows), so the loaded and cleaned table is a parameter \<open>df\<close> of everything
  below; its \<open>category\<close> and \<open>brand\<close> columns hold text and its \<open>age_months\<close> and
  \<open>asking_price\<close> columns hold numbers.
\<close>

record listing =
  item_id :: nat
  title :: string
  category :: string
  brand :: string
  condition :: string
  age_months :: real
  asking_price :: real
  location :: string

text \<open>The rows of \<open>_create_fallback_data\<close>.\<close>

definition iphone12 :: listing where
  "iphone12 = \<lparr>item_id = 1, title = ''iPhone 12'', category = ''Mobile'', brand = ''Apple'',
     condition = ''Good'', age_months = 24, asking_price = 35000, location = ''Mumbai''\<rparr>"

definition galaxy_s21 :: listing where
  "galaxy_s21 = \<lparr>item_id = 2, title = ''Samsung Galaxy S21'', category = ''Mobile'',
     brand = ''Samsung'', condition = ''Like New'', age_months = 12, asking_price = 40000,
     location = ''Delhi''\<rparr>"

definition macbook_air :: listing where
  "macbook_air = \<lparr>item_id = 3, title = ''MacBook Air'', category = ''Laptop'', brand = ''Apple'',
     condition = ''Good'', age_months = 18, asking_price = 65000, location = ''Bangalore''\<rparr>"

definition dell_inspiron :: listing where
  "dell_inspiron = \<lparr>item_id = 4, title = ''Dell Inspiron'', category = ''Laptop'', brand = ''Dell'',
     condition = ''Fair'', age_months = 36, asking_price = 25000, location = ''Chennai''\<rparr>"

definition sony_camera :: listing where
  "sony_camera = \<lparr>item_id = 5, title = ''Sony Camera'', category = ''Camera'', brand = ''Sony'',
     condition = ''Like New'', age_months = 6, asking_price = 45000, location = ''Pune''\<rparr>"

definition create_fallback_data :: "listing list" where
  "create_fallback_data = [iphone12, galaxy_s21, macbook_air, dell_inspiron, sony_camera]"

text \<open>\<open>df[df['category'] == category]\<close>\<close>

definition by_category :: "listing list \<Rightarrow> pyval \<Rightarrow> listing list" where
  "by_category df cat = filter (\<lambda>l. PStr (category l) = cat) df"

text \<open>
  \<open>DataProcessor.find_similar_products\<close>. The age filter subtracts the requested age from a
  numeric column, which raises for a value that is not a number; it is only evaluated when
  the category-and-brand match is not empty.
\<close>

definition find_similar_products ::
  "listing list \<Rightarrow> pyval \<Rightarrow> pyval \<Rightarrow> pyval \<Rightarrow> int \<Rightarrow> error + listing list" where
  "find_similar_products df cat br age age_tolerance =
     (let similar = filter (\<lambda>l. PStr (category l) = cat \<and> PStr (brand l) = br) df in
      bnd (if similar \<noteq> [] \<and> age_tolerance > 0
           then bnd (as_number age) (\<lambda>a.
                  let age_filtered =
                        filter (\<lambda>l. \<bar>age_months l - a\<bar> \<le> real_of_int age_tolerance) similar
                  in Inr (if age_filtered \<noteq> [] then age_filtered else similar))
           else Inr similar)
        (\<lambda>similar. Inr (if similar = [] then by_category df cat else similar)))"

text \<open>Column statistics of a non-empty selection: mean, minimum, maximum.\<close>

definition mean :: "real list \<Rightarrow> real" where
  "mean xs = sum_list xs / real (length xs)"

fun minimum :: "real list \<Rightarrow> real" where
  "minimum [] = 0"
| "minimum [x] = x"
| "minimum (x # y # ys) = min x (minimum (y # ys))"

fun maximum :: "real list \<Rightarrow> real" where
  "maximum [] = 0"
| "maximum [x] = x"
| "maximum (x # y # ys) = max x (maximum (y # ys))"

text \<open>
  The sample standard deviation of a column (one degree of freedom removed); it is NaN,
  here \<open>None\<close>, for a single row.
\<close>

definition std :: "real list \<Rightarrow> real option" where
  "std xs = (if length xs < 2 then None
             else Some (sqrt (sum_list (map (\<lambda>x. (x - mean xs)\<^sup>2) xs) / real (length xs - 1))))"

section \<open>Price suggestion agent: tables and validation\<close>

definition depreciation_rates :: "(string \<times> real) list" where
  "depreciation_rates = [(''Mobile'', 0.05), (''Laptop'', 0.04), (''Electronics'', 0.03),
     (''Camera'', 0.02), (''Fashion'', 0.08), (''Furniture'', 0.01)]"

definition brand_multipliers :: "(string \<times> real) list" where
  "brand_multipliers = [(''Apple'', 1.2), (''Samsung'', 1.1), (''Sony'', 1.1), (''Canon'', 1.1),
     (''Nike'', 1.05), (''Adidas'', 1.05), (''default'', 1.0)]"

definition location_multipliers :: "(string \<times> real) list" where
  "location_multipliers = [(''Mumbai'', 1.15), (''Delhi'', 1.10), (''Bangalore'', 1.12),
     (''Chennai'', 1.08), (''Pune'', 1.06), (''Hyderabad'', 1.04), (''default'', 1.0)]"

definition condition_multipliers :: "(string \<times> real) list" where
  "condition_multipliers = [(''Like New'', 0.85), (''Good'', 0.70), (''Fair'', 0.55)]"

definition required_fields :: "string list" where
  "required_fields = [''title'', ''category'', ''brand'', ''condition'', ''age_months'',
     ''asking_price'', ''location'']"

definition valid_conditions :: "string list" where
  "valid_conditions = [''Like New'', ''Good'', ''Fair'']"

fun check_required :: "request \<Rightarrow> string list \<Rightarrow> error + unit" where
  "check_required d [] = Inr ()"
| "check_required d (f # fs) =
     (if d f = None then Inl (ValueError (''Missing required field: '' @ f))
      else check_required d fs)"

text \<open>\<open>PriceSuggestorAgent._validate_input\<close>\<close>

definition validate_input_price :: "request \<Rightarrow> error + unit" where
  "validate_input_price d =
     bnd (check_required d required_fields) (\<lambda>_.
     bnd (getitem d ''age_months'') (\<lambda>age.
     if (case num_of age of None \<Rightarrow> True | Some a \<Rightarrow> a < 0)
     then Inl (ValueError ''age_months must be a non-negative number'')
     else
     bnd (getitem d ''asking_price'') (\<lambda>price.
     if (case num_of price of None \<Rightarrow> True | Some p \<Rightarrow> p \<le> 0)
     then Inl (ValueError ''asking_price must be a positive number'')
     else
     bnd (getitem d ''condition'') (\<lambda>c.
     if (case c of PStr s \<Rightarrow> s \<notin> set valid_conditions | _ \<Rightarrow> True)
     then Inl (ValueError ''condition must be one of: Like New, Good, Fair'')
     else Inr ()))))"

section \<open>Price suggestion agent: market analysis\<close>

record market_analysis =
  similar_items :: "listing list"
  avg_price :: real
  min_price :: real
  max_price :: real
  depreciation_rate :: real
  brand_multiplier :: real
  location_multiplier :: real

text \<open>
  The body of the \<open>try\<close> block of \<open>PriceSuggestorAgent._analyze_market\<close>. With no similar
  item the three statistics are taken from \<open>data['asking_price']\<close>, whose products with
  \<open>0.8\<close> and \<open>1.2\<close> raise for a value that is not a number.
\<close>

definition asking_number :: "request \<Rightarrow> error + real" where
  "asking_number d = bnd (getitem d ''asking_price'') as_number"

definition analyze_market_body :: "listing list \<Rightarrow> request \<Rightarrow> error + market_analysis" where
  "analyze_market_body df d =
     bnd (getitem d ''category'') (\<lambda>cat.
     bnd (getitem d ''brand'') (\<lambda>br.
     bnd (getitem d ''age_months'') (\<lambda>age.
     bnd (find_similar_products df cat br age 12) (\<lambda>found.
     let similar = (if found = [] then by_category df cat else found);
         prices = map asking_price similar in
     bnd (if similar \<noteq> [] then Inr (mean prices) else asking_number d) (\<lambda>avg.
     bnd (if similar \<noteq> [] then Inr (minimum prices)
          else bnd (asking_number d) (\<lambda>p. Inr (p * 0.8))) (\<lambda>lo.
     bnd (if similar \<noteq> [] then Inr (maximum prices)
          else bnd (asking_number d) (\<lambda>p. Inr (p * 1.2))) (\<lambda>hi.
     bnd (getitem d ''location'') (\<lambda>loc.
     Inr \<lparr>similar_items = similar, avg_price = avg, min_price = lo, max_price = hi,
          depreciation_rate = dict_get depreciation_rates cat 0.03 * 100,
          brand_multiplier = dict_get brand_multipliers br 1.0,
          location_multiplier = dict_get location_multipliers loc 1.0\<rparr>))))))))"

text \<open>
  \<open>PriceSuggestorAgent._analyze_market\<close>: any exception of the body is replaced by the
  fallback analysis, which itself reads \<open>data['asking_price']\<close>.
\<close>

definition analyze_market :: "listing list \<Rightarrow> request \<Rightarrow> error + market_analysis" where
  "analyze_market df d =
     (case analyze_market_body df d of
        Inr ma \<Rightarrow> Inr ma
      | Inl _ \<Rightarrow>
          bnd (asking_number d) (\<lambda>p.
          Inr \<lparr>similar_items = [], avg_price = p, min_price = p * 0.8, max_price = p * 1.2,
               depreciation_rate = 3.0, brand_multiplier = 1.0, location_multiplier = 1.0\<rparr>))"

section \<open>Price suggestion agent: fraud indicators\<close>

record fraud_analysis =
  fraud_score :: real
  fraud_indicators :: "string list"
  risk_level :: string

text \<open>One \<open>if\<close> of the detector: add the weight and append the indicator.\<close>

definition flag :: "bool \<Rightarrow> real \<Rightarrow> string \<Rightarrow> real \<times> string list \<Rightarrow> real \<times> string list" where
  "flag c w msg acc = (if c then (fst acc + w, snd acc @ [msg]) else acc)"

text \<open>An ordering test against a column statistic that may be NaN: then it is false.\<close>

definition below_by :: "real \<Rightarrow> real \<Rightarrow> real \<Rightarrow> real option \<Rightarrow> bool" where
  "below_by p avg k sd = (case sd of None \<Rightarrow> False | Some s \<Rightarrow> p < avg - k * s)"

definition above_by :: "real \<Rightarrow> real \<Rightarrow> real \<Rightarrow> real option \<Rightarrow> bool" where
  "above_by p avg k sd = (case sd of None \<Rightarrow> False | Some s \<Rightarrow> p > avg + k * s)"

definition detect_fraud_body :: "listing list \<Rightarrow> request \<Rightarrow> error + fraud_analysis" where
  "detect_fraud_body df d =
     bnd (getitem d ''asking_price'') (\<lambda>ap.
     bnd (getitem d ''age_months'') (\<lambda>age.
     bnd (getitem d ''category'') (\<lambda>cat.
     let prices = map asking_price (by_category df cat) in
     bnd (if prices \<noteq> []
          then bnd (as_number ap) (\<lambda>p.
                 Inr (flag (above_by p (mean prices) 3 (std prices)) 0.2
                        ''Significantly overpriced compared to market''
                     (flag (below_by p (mean prices) 2 (std prices)) 0.3
                        ''Suspiciously low price compared to market average'' (0, []))))
          else Inr (0, [])) (\<lambda>acc1.
     bnd (as_number age) (\<lambda>a.
     let acc2 = flag (a > 120) 0.1 ''Unusually old product age'' acc1 in
     bnd (getitem d ''brand'') (\<lambda>br.
     bnd (if br = PStr ''Apple'' \<or> br = PStr ''Samsung''
          then bnd (as_number ap) (\<lambda>p. Inr (p < 5000)) else Inr False) (\<lambda>cheap.
     let acc3 = flag cheap 0.4 ''Premium brand with suspiciously low price'' acc2 in
     bnd (getitem d ''condition'') (\<lambda>cond.
     let acc4 = flag (cond = PStr ''Like New'' \<and> a > 36) 0.2
                  (CHR 0x27 # ''Like New'' @ CHR 0x27 # '' condition inconsistent with age'')
                  acc3 in
     Inr \<lparr>fraud_score = min (fst acc4) 1.0, fraud_indicators = snd acc4,
          risk_level = (if fst acc4 > 0.6 then ''high''
                        else if fst acc4 > 0.3 then ''medium'' else ''low'')\<rparr>))))))))"

text \<open>\<open>PriceSuggestorAgent._detect_fraud_indicators\<close>: an exception gives the empty analysis.\<close>

definition detect_fraud_indicators :: "listing list \<Rightarrow> request \<Rightarrow> fraud_analysis" where
  "detect_fraud_indicators df d =
     (case detect_fraud_body df d of
        Inr r \<Rightarrow> r
      | Inl _ \<Rightarrow> \<lparr>fraud_score = 0.0, fraud_indicators = [], risk_level = ''low''\<rparr>)"

section \<open>Price suggestion agent: confidence score\<close>

definition calculate_confidence_body :: "request \<Rightarrow> market_analysis \<Rightarrow> error + real" where
  "calculate_confidence_body d ma =
     (let n = length (similar_items ma);
          c1 = 0.5 + (if n > 10 then 0.3 else if n > 5 then 0.2 else if n > 0 then 0.1 else 0) in
      bnd (getitem d ''brand'') (\<lambda>br.
      let c2 = c1 + (if dict_mem brand_multipliers br then 0.1 else 0) in
      bnd (getitem d ''age_months'') (\<lambda>age.
      bnd (as_number age) (\<lambda>a.
      let c3 = c2 + (if 0 \<le> a \<and> a \<le> 60 then 0.1 else 0);
          c4 = c3 + (if list_all (\<lambda>f. case d f of None \<Rightarrow> False | Some v \<Rightarrow> truthy v)
                          required_fields then 0.1 else 0) in
      Inr (min c4 1.0)))))"

text \<open>\<open>PriceSuggestorAgent._calculate_confidence_score\<close>\<close>

definition calculate_confidence_score :: "request \<Rightarrow> market_analysis \<Rightarrow> real" where
  "calculate_confidence_score d ma =
     (case calculate_confidence_body d ma of Inr c \<Rightarrow> c | Inl _ \<Rightarrow> 0.5)"

section \<open>Generation replies\<close>

text \<open>
  What \<open>json.loads\<close> can return. Besides the values of standard JSON the decoder accepts
  the literals \<open>NaN\<close>, \<open>Infinity\<close> and \<open>-Infinity\<close>. \<open>JObj\<close> lists the items of the decoded
  dictionary, each key once. The decoder itself is library code and is a parameter
  \<open>loads\<close> below; it yields \<open>None\<close> where \<open>json.loads\<close> raises \<open>JSONDecodeError\<close>.
\<close>

datatype json = JNull | JBool bool | JInt int | JFloat real | JNaN | JInfinity | JNegInfinity
  | JStr string | JArr "json list" | JObj "(string \<times> json) list"

text \<open>\<open>isinstance(v, (int, float))\<close>\<close>

fun json_is_number :: "json \<Rightarrow> bool" where
  "json_is_number (JBool b) = True"
| "json_is_number (JInt n) = True"
| "json_is_number (JFloat r) = True"
| "json_is_number JNaN = True"
| "json_is_number JInfinity = True"
| "json_is_number JNegInfinity = True"
| "json_is_number v = False"

text \<open>\<open>v < r\<close> and \<open>v > r\<close> for a decoded number \<open>v\<close>; every ordering test on NaN is false.\<close>

fun json_lt :: "json \<Rightarrow> real \<Rightarrow> bool" where
  "json_lt (JBool b) r = ((if b then 1 else 0) < r)"
| "json_lt (JInt n) r = (real_of_int n < r)"
| "json_lt (JFloat x) r = (x < r)"
| "json_lt JNegInfinity r = True"
| "json_lt v r = False"

fun json_gt :: "json \<Rightarrow> real \<Rightarrow> bool" where
  "json_gt (JBool b) r = ((if b then 1 else 0) > r)"
| "json_gt (JInt n) r = (real_of_int n > r)"
| "json_gt (JFloat x) r = (x > r)"
| "json_gt JInfinity r = True"
| "json_gt v r = False"

text \<open>
  \<open>BaseLLMClient.extract_json\<close>: the span from the first \<open>{\<close> to the last \<open>}\<close> after it
  when there is one, else the stripped text without its code fence.
\<close>

definition extract_json :: "string \<Rightarrow> string" where
  "extract_json response =
     (let json_match = rev (dropWhile (\<lambda>c. c \<noteq> CHR ''}'')
                         (rev (dropWhile (\<lambda>c. c \<noteq> CHR ''{'') response)))
      in if json_match \<noteq> [] then json_match
         else let r1 = strip response;
                  r2 = (if startswith r1 ''```json'' then drop 7 r1 else r1);
                  r3 = (if startswith r2 ''```'' then drop 3 r2 else r2);
                  r4 = (if endswith r3 ''```'' then take (length r3 - 3) r3 else r3)
              in strip r4)"

fun check_reply_fields :: "(string \<times> json) list \<Rightarrow> string list \<Rightarrow> error + unit" where
  "check_reply_fields result [] = Inr ()"
| "check_reply_fields result (f # fs) =
     (if map_of result f = None
      then Inl (ValueError (''Missing required field in response: '' @ f))
      else check_reply_fields result fs)"

text \<open>\<open>result.get(k, default)\<close>\<close>

definition json_get :: "(string \<times> json) list \<Rightarrow> string \<Rightarrow> json \<Rightarrow> json" where
  "json_get result k dflt = (case map_of result k of None \<Rightarrow> dflt | Some v \<Rightarrow> v)"

text \<open>The test applied to the \<open>confidence\<close> of a reply by both agents.\<close>

definition bad_confidence :: "json \<Rightarrow> bool" where
  "bad_confidence c = (\<not> json_is_number c \<or> json_lt c 0 \<or> json_gt c 1)"

text \<open>
  The checks of \<open>PriceSuggestorAgent._parse_response\<close> on the decoded reply. A reply that
  is not a dictionary fails one of the membership or subscript operations.
\<close>

definition parse_checks_price :: "json \<Rightarrow> error + (string \<times> json) list" where
  "parse_checks_price v =
     (case v of
        JObj result \<Rightarrow>
          bnd (check_reply_fields result
                 [''suggested_price_range'', ''reasoning'', ''confidence'', ''market_position'',
                  ''recommendations'']) (\<lambda>_.
          if (case json_get result ''suggested_price_range'' JNull of
                JObj price_range \<Rightarrow>
                  map_of price_range ''min'' = None \<or> map_of price_range ''max'' = None
              | _ \<Rightarrow> True)
          then Inl (ValueError ''Invalid price range structure'')
          else if bad_confidence (json_get result ''confidence'' JNull)
          then Inl (ValueError ''Confidence must be between 0 and 1'')
          else if json_get result ''market_position'' JNull
                    \<notin> set [JStr ''underpriced'', JStr ''fairly_priced'', JStr ''overpriced'']
          then Inl (ValueError
                 ''market_position must be one of: underpriced, fairly_priced, overpriced'')
          else Inr result)
      | _ \<Rightarrow> Inl TypeError)"

text \<open>
  \<open>PriceSuggestorAgent._parse_response\<close>: a decoding failure and any failed check are both
  re-raised as \<open>ValueError\<close>.
\<close>

definition parse_response_price ::
  "(string \<Rightarrow> json option) \<Rightarrow> string \<Rightarrow> error + (string \<times> json) list" where
  "parse_response_price loads response =
     (case loads (extract_json response) of
        None \<Rightarrow> Inl (ValueError ''Invalid JSON response from LLM'')
      | Some v \<Rightarrow>
          (case parse_checks_price v of
             Inr result \<Rightarrow> Inr result
           | Inl _ \<Rightarrow> Inl (ValueError ''Failed to parse response'')))"

section \<open>The shared pipeline\<close>

record agent_stats =
  execution_count :: nat
  success_count :: nat
  total_processing_time :: real

definition initial_stats :: agent_stats where
  "initial_stats = \<lparr>execution_count = 0, success_count = 0, total_processing_time = 0.0\<rparr>"

text \<open>
  What one \<open>process\<close> call meets outside the agent: the outcome of each call of the
  generation gateway (numbered from 0 within the \<open>process\<close> call; the prompt text is not
  modelled, since the gateway is arbitrary), the time the clock shows to have elapsed,
  and the value \<open>uuid.uuid4()\<close> yields.
\<close>

record env =
  gateway :: "nat \<Rightarrow> error + string"
  elapsed :: real
  uuid4 :: string

text \<open>One pass of the retry loop: an empty or blank reply is raised as \<open>ValueError\<close>.\<close>

definition attempt :: "(nat \<Rightarrow> error + string) \<Rightarrow> nat \<Rightarrow> error + string" where
  "attempt g k =
     bnd (g k) (\<lambda>response.
       if response \<noteq> [] \<and> strip response \<noteq> [] then Inr response
       else Inl (ValueError ''Empty response from LLM''))"

text \<open>
  \<open>BaseAgent._call_llm_with_retry\<close>: the loop over \<open>range(max_retries)\<close>, from pass \<open>k\<close> with
  \<open>n\<close> passes left; after the last pass \<open>last_exception\<close> is raised (raising \<open>None\<close> is a
  \<open>TypeError\<close>).
\<close>

fun retry_loop ::
  "(nat \<Rightarrow> error + string) \<Rightarrow> nat \<Rightarrow> nat \<Rightarrow> error option \<Rightarrow> error + string" where
  "retry_loop g k 0 last_exception =
     (case last_exception of None \<Rightarrow> Inl TypeError | Some e \<Rightarrow> Inl e)"
| "retry_loop g k (Suc n) last_exception =
     (case attempt g k of
        Inr response \<Rightarrow> Inr response
      | Inl e \<Rightarrow> retry_loop g (Suc k) n (Some e))"

definition call_llm_with_retry :: "(nat \<Rightarrow> error + string) \<Rightarrow> nat \<Rightarrow> error + string" where
  "call_llm_with_retry g max_retries = retry_loop g 0 max_retries None"

datatype exec_id = IdCount nat | IdUuid string

record metadata =
  processing_time :: real
  agent_type :: string
  execution_id :: exec_id

text \<open>
  \<open>BaseAgent.process\<close>, over the three operations an agent supplies. It returns the
  updated statistics and either the exception it re-raises or the result with its
  metadata.
\<close>

definition base_process ::
  "(request \<Rightarrow> error + unit) \<Rightarrow> (request \<Rightarrow> error + 'p) \<Rightarrow> (string \<Rightarrow> error + 'r) \<Rightarrow> string
   \<Rightarrow> env \<Rightarrow> agent_stats \<Rightarrow> request \<Rightarrow> agent_stats \<times> (error + 'r \<times> metadata)" where
  "base_process validate_input generate_prompt parse_response class_name e st d =
     (let st1 = st\<lparr>execution_count := execution_count st + 1\<rparr> in
      case bnd (validate_input d) (\<lambda>_.
           bnd (generate_prompt d) (\<lambda>prompt.
           bnd (call_llm_with_retry (gateway e) 2) (\<lambda>response.
           parse_response response))) of
        Inr result \<Rightarrow>
          (st1\<lparr>success_count := success_count st1 + 1,
               total_processing_time := total_processing_time st1 + elapsed e\<rparr>,
           Inr (result, \<lparr>processing_time = elapsed e, agent_type = class_name,
                         execution_id = IdCount (execution_count st1)\<rparr>))
      | Inl err \<Rightarrow>
          (st1\<lparr>total_processing_time := total_processing_time st1 + elapsed e\<rparr>, Inl err))"

text \<open>\<open>BaseAgent._update_stats\<close>, \<open>success_rate\<close> and \<open>avg_processing_time\<close>.\<close>

definition update_stats :: "agent_stats \<Rightarrow> bool \<Rightarrow> real \<Rightarrow> agent_stats" where
  "update_stats st success t =
     (let st1 = st\<lparr>execution_count := execution_count st + 1,
                   total_processing_time := total_processing_time st + t\<rparr>
      in if success then st1\<lparr>success_count := success_count st1 + 1\<rparr> else st1)"

definition success_rate :: "agent_stats \<Rightarrow> real" where
  "success_rate st =
     (if execution_count st = 0 then 0.0
      else real (success_count st) / real (execution_count st))"

definition avg_processing_time :: "agent_stats \<Rightarrow> real" where
  "avg_processing_time st =
     (if execution_count st = 0 then 0.0
      else total_processing_time st / real (execution_count st))"

section \<open>Price suggestion agent: prompt, fallback pricing and process\<close>

text \<open>
  The prompt is kept as the data it embeds. Building either prompt reads the seven
  request fields; when the market analysis or the formatting raises, the reduced prompt
  is used.
\<close>

datatype price_prompt = MarketPrompt market_analysis | FallbackPrompt

fun getitems :: "request \<Rightarrow> string list \<Rightarrow> error + unit" where
  "getitems d [] = Inr ()"
| "getitems d (f # fs) = bnd (getitem d f) (\<lambda>_. getitems d fs)"

definition generate_fallback_prompt :: "request \<Rightarrow> error + price_prompt" where
  "generate_fallback_prompt d = bnd (getitems d required_fields) (\<lambda>_. Inr FallbackPrompt)"

definition generate_prompt_price :: "listing list \<Rightarrow> request \<Rightarrow> error + price_prompt" where
  "generate_prompt_price df d =
     (case bnd (analyze_market df d) (\<lambda>ma.
           bnd (getitems d required_fields) (\<lambda>_. Inr (MarketPrompt ma))) of
        Inr prompt \<Rightarrow> Inr prompt
      | Inl _ \<Rightarrow> generate_fallback_prompt d)"

text \<open>
  The result of the price agent. The free-text entries \<open>reasoning\<close> and \<open>recommendations\<close>
  and any further key of a reply are left out. On the generation path the range,
  confidence and market position are the values of the reply.
\<close>

record price_result =
  suggested_price_range :: json
  confidence :: json
  market_position :: json
  fraud_analysis :: "fraud_analysis option"
  metadata :: metadata

definition price_range :: "int \<Rightarrow> int \<Rightarrow> json" where
  "price_range lo hi = JObj [(''min'', JInt lo), (''max'', JInt hi)]"

text \<open>
  The last-resort result, built in the \<open>except\<close> branch of \<open>_generate_fallback_pricing\<close> and
  again in the one of \<open>process\<close>: it reads \<open>data['asking_price']\<close> and multiplies it.
\<close>

definition emergency_result :: "request \<Rightarrow> real \<Rightarrow> string \<Rightarrow> string \<Rightarrow> error + price_result" where
  "emergency_result d t agent u =
     bnd (asking_number d) (\<lambda>p.
     Inr \<lparr>suggested_price_range = price_range (py_int (p * 0.8)) (py_int (p * 1.2)),
          confidence = JFloat 0.3, market_position = JStr ''fairly_priced'',
          fraud_analysis = None,
          metadata = \<lparr>processing_time = t, agent_type = agent, execution_id = IdUuid u\<rparr>\<rparr>)"

definition fallback_pricing_body :: "request \<Rightarrow> real \<Rightarrow> string \<Rightarrow> error + price_result" where
  "fallback_pricing_body d t u =
     bnd (getitem d ''asking_price'') (\<lambda>ap.
     bnd (getitem d ''age_months'') (\<lambda>age.
     bnd (getitem d ''category'') (\<lambda>cat.
     bnd (getitem d ''condition'') (\<lambda>cond.
     bnd (getitem d ''brand'') (\<lambda>br.
     bnd (getitem d ''location'') (\<lambda>loc.
     let depreciation_rate = dict_get depreciation_rates cat 0.03;
         brand_multiplier = dict_get brand_multipliers br 1.0;
         location_multiplier = dict_get location_multipliers loc 1.0;
         condition_multiplier = dict_get condition_multipliers cond 0.70;
         monthly_depreciation = 1 - depreciation_rate in
     bnd (as_number age) (\<lambda>a.
     bnd (as_number ap) (\<lambda>p.
     let depreciated_value = p * py_pow monthly_depreciation a;
         estimated_value =
           depreciated_value * condition_multiplier * brand_multiplier * location_multiplier;
         lo = py_int (estimated_value * 0.85);
         hi = py_int (estimated_value * 1.15);
         position = (if p < real_of_int lo then ''underpriced''
                     else if p > real_of_int hi then ''overpriced'' else ''fairly_priced'') in
     Inr \<lparr>suggested_price_range = price_range lo hi,
          confidence = JFloat 0.6, market_position = JStr position,
          fraud_analysis = None,
          metadata = \<lparr>processing_time = t, agent_type = ''price_suggestor_fallback'',
                       execution_id = IdUuid u\<rparr>\<rparr>))))))))"

text \<open>\<open>PriceSuggestorAgent._generate_fallback_pricing\<close>\<close>

definition generate_fallback_pricing :: "request \<Rightarrow> real \<Rightarrow> string \<Rightarrow> error + price_result" where
  "generate_fallback_pricing d t u =
     (case fallback_pricing_body d t u of
        Inr r \<Rightarrow> Inr r
      | Inl _ \<Rightarrow> emergency_result d t ''price_suggestor_emergency'' u)"

text \<open>\<open>max(result.get('confidence', 0), enhanced_confidence)\<close>: the second only if greater.\<close>

definition max_confidence :: "json \<Rightarrow> real \<Rightarrow> json" where
  "max_confidence c enhanced = (if json_lt c enhanced then JFloat enhanced else c)"

text \<open>The \<open>try\<close> block of \<open>PriceSuggestorAgent.process\<close>.\<close>

definition process_price_body ::
  "listing list \<Rightarrow> (string \<Rightarrow> json option) \<Rightarrow> env \<Rightarrow> request \<Rightarrow> error + price_result" where
  "process_price_body df loads e d =
     bnd (validate_input_price d) (\<lambda>_.
     bnd (generate_prompt_price df d) (\<lambda>prompt.
     bnd (call_llm_with_retry (gateway e) 2) (\<lambda>response.
     bnd (parse_response_price loads response) (\<lambda>result.
     let fraud = detect_fraud_indicators df d in
     bnd (analyze_market df d) (\<lambda>ma.
     let enhanced_confidence = calculate_confidence_score d ma in
     Inr \<lparr>suggested_price_range = json_get result ''suggested_price_range'' JNull,
          confidence = max_confidence (json_get result ''confidence'' (JInt 0))
                         enhanced_confidence,
          market_position = json_get result ''market_position'' JNull,
          fraud_analysis = Some fraud,
          metadata = \<lparr>processing_time = elapsed e, agent_type = ''price_suggestor'',
                       execution_id = IdUuid (uuid4 e)\<rparr>\<rparr>)))))"

text \<open>
  \<open>PriceSuggestorAgent.process\<close>: the statistics after the call, and the result or the
  exception that leaves the call.
\<close>

definition process_price ::
  "listing list \<Rightarrow> (string \<Rightarrow> json option) \<Rightarrow> env \<Rightarrow> agent_stats \<Rightarrow> request
   \<Rightarrow> agent_stats \<times> (error + price_result)" where
  "process_price df loads e st d =
     (case process_price_body df loads e d of
        Inr result \<Rightarrow> (update_stats st True (elapsed e), Inr result)
      | Inl _ \<Rightarrow>
          (update_stats st False (elapsed e),
           case generate_fallback_pricing d (elapsed e) (uuid4 e) of
             Inr r \<Rightarrow> Inr r
           | Inl _ \<Rightarrow> emergency_result d (elapsed e) ''emergency_fallback'' (uuid4 e)))"

section \<open>Chat moderation agent\<close>

text \<open>
  The phone patterns are sequences of these items: a word boundary \<open>\b\<close>, a digit \<open>\d\<close>,
  a literal character, one separator \<open>[\s-]\<close> and an optional separator \<open>[\s-]?\<close>.
\<close>

datatype atom = WordB | Digit | Lit char | Sep | OptSep

definition is_word :: "char option \<Rightarrow> bool" where
  "is_word c = (case c of None \<Rightarrow> False
                | Some x \<Rightarrow> is_digit x \<or> is_alpha x \<or> x = CHR ''_'')"

definition is_sep :: "char \<Rightarrow> bool" where
  "is_sep c = (is_space c \<or> c = CHR ''-'')"

text \<open>
  Whether the pattern matches at the current position, given the character before it
  and the text from it on.
\<close>

fun match_here :: "atom list \<Rightarrow> char option \<Rightarrow> string \<Rightarrow> bool" where
  "match_here [] prev s = True"
| "match_here (WordB # as) prev s =
     (is_word prev \<noteq> is_word (case s of [] \<Rightarrow> None | c # _ \<Rightarrow> Some c) \<and> match_here as prev s)"
| "match_here (Digit # as) prev s =
     (case s of [] \<Rightarrow> False | c # cs \<Rightarrow> is_digit c \<and> match_here as (Some c) cs)"
| "match_here (Lit x # as) prev s =
     (case s of [] \<Rightarrow> False | c # cs \<Rightarrow> c = x \<and> match_here as (Some c) cs)"
| "match_here (Sep # as) prev s =
     (case s of [] \<Rightarrow> False | c # cs \<Rightarrow> is_sep c \<and> match_here as (Some c) cs)"
| "match_here (OptSep # as) prev s =
     ((case s of [] \<Rightarrow> False | c # cs \<Rightarrow> is_sep c \<and> match_here as (Some c) cs)
      \<or> match_here as prev s)"

text \<open>\<open>re.search\<close>: a match at some position.\<close>

fun search_from :: "atom list \<Rightarrow> char option \<Rightarrow> string \<Rightarrow> bool" where
  "search_from p prev [] = match_here p prev []"
| "search_from p prev (c # cs) = (match_here p prev (c # cs) \<or> search_from p (Some c) cs)"

definition re_search :: "atom list \<Rightarrow> string \<Rightarrow> bool" where
  "re_search p s = search_from p None s"

definition phone_patterns :: "atom list list" where
  "phone_patterns =
     [WordB # replicate 10 Digit @ [WordB],
      [WordB, Lit (CHR ''+''), Lit (CHR ''9''), Lit (CHR ''1''), OptSep]
        @ replicate 10 Digit @ [WordB],
      [WordB, Lit (CHR ''9''), Lit (CHR ''1''), OptSep] @ replicate 10 Digit @ [WordB],
      WordB # replicate 3 Digit @ Sep # replicate 3 Digit @ Sep # replicate 4 Digit @ [WordB],
      WordB # replicate 5 Digit @ Sep # replicate 5 Digit @ [WordB]]"

definition abusive_keywords :: "string list" where
  "abusive_keywords =
     [''fraud'', ''scam'', ''cheat'', ''fake'', ''stupid'', ''idiot'', ''fool'',
      ''urgent'', ''hurry'', ''cash only'', ''advance payment'', ''western union'',
      ''money gram'', ''lottery'', ''winner'', ''congratulations'', ''selected'']"

definition external_platforms :: "string list" where
  "external_platforms =
     [''whatsapp'', ''telegram'', ''facebook'', ''instagram'', ''email'', ''gmail'',
      ''yahoo'', ''hotmail'', ''call me'', ''text me'', ''dm me'', ''message me'']"

text \<open>\<open>ChatModeratorAgent._detect_phone_number\<close>\<close>

definition detect_phone_number :: "string \<Rightarrow> bool" where
  "detect_phone_number message =
     (let message_clean =
            filter (\<lambda>c. is_digit c \<or> c = CHR ''+'' \<or> is_space c \<or> c = CHR ''-'') message
      in list_ex (\<lambda>pattern. re_search pattern message_clean) phone_patterns)"

text \<open>\<open>ChatModeratorAgent._detect_abusive_content\<close>\<close>

definition detect_abusive_content :: "string \<Rightarrow> bool" where
  "detect_abusive_content message =
     (let message_lower = lower message
      in list_ex (\<lambda>keyword. contains message_lower keyword) abusive_keywords)"

text \<open>\<open>ChatModeratorAgent._detect_external_platforms\<close>\<close>

definition detect_external_platforms :: "string \<Rightarrow> bool" where
  "detect_external_platforms message =
     (let message_lower = lower message
      in list_ex (\<lambda>platform. contains message_lower platform) external_platforms)"

text \<open>\<open>ChatModeratorAgent._validate_input\<close>\<close>

definition validate_input_chat :: "request \<Rightarrow> error + unit" where
  "validate_input_chat d =
     (case d ''message'' of
        None \<Rightarrow> Inl (ValueError ''Missing required field: message'')
      | Some (PStr m) \<Rightarrow>
          if length (strip m) = 0 then Inl (ValueError ''Message cannot be empty'')
          else if length m > 1000 then Inl (ValueError ''Message too long (max 1000 characters)'')
          else Inr ()
      | Some _ \<Rightarrow> Inl (ValueError ''Message must be a string''))"

text \<open>The moderation prompt, kept as the data it embeds.\<close>

record chat_prompt =
  prompt_message :: string
  prompt_context :: pyval
  phone_detected :: bool
  abusive_detected :: bool
  external_platform_detected :: bool

text \<open>\<open>ChatModeratorAgent._generate_prompt\<close>; the detectors need a text.\<close>

definition generate_prompt_chat :: "request \<Rightarrow> error + chat_prompt" where
  "generate_prompt_chat d =
     bnd (getitem d ''message'') (\<lambda>m.
     case m of
       PStr message \<Rightarrow>
         Inr \<lparr>prompt_message = message,
              prompt_context =
                (case d ''context'' of None \<Rightarrow> PStr ''No additional context'' | Some c \<Rightarrow> c),
              phone_detected = detect_phone_number message,
              abusive_detected = detect_abusive_content message,
              external_platform_detected = detect_external_platforms message\<rparr>
     | _ \<Rightarrow> Inl TypeError)"

text \<open>
  The verdict. \<open>TextOf v\<close> stands for the one-element list \<open>[str(v)]\<close> that replaces a
  \<open>detected_elements\<close> entry which is not a list.
\<close>

datatype elements = ElementList "json list" | TextOf json

record moderation_result =
  status :: json
  reason :: json
  verdict_confidence :: json
  detected_elements :: elements
  severity :: json
  action_recommended :: json

definition parse_checks_chat :: "json \<Rightarrow> error + moderation_result" where
  "parse_checks_chat v =
     (case v of
        JObj result \<Rightarrow>
          bnd (check_reply_fields result
                 [''status'', ''reason'', ''confidence'', ''detected_elements'', ''severity'',
                  ''action_recommended'']) (\<lambda>_.
          if json_get result ''status'' JNull
               \<notin> set [JStr ''safe'', JStr ''abusive'', JStr ''phone_detected'',
                      JStr ''policy_violation'']
          then Inl (ValueError
                 ''status must be one of: safe, abusive, phone_detected, policy_violation'')
          else if bad_confidence (json_get result ''confidence'' JNull)
          then Inl (ValueError ''Confidence must be between 0 and 1'')
          else if json_get result ''severity'' JNull
                    \<notin> set [JStr ''low'', JStr ''medium'', JStr ''high'']
          then Inl (ValueError ''severity must be one of: low, medium, high'')
          else if json_get result ''action_recommended'' JNull
                    \<notin> set [JStr ''none'', JStr ''warn'', JStr ''block'', JStr ''review'']
          then Inl (ValueError ''action_recommended must be one of: none, warn, block, review'')
          else Inr \<lparr>status = json_get result ''status'' JNull,
                    reason = json_get result ''reason'' JNull,
                    verdict_confidence = json_get result ''confidence'' JNull,
                    detected_elements =
                      (case json_get result ''detected_elements'' JNull of
                         JArr xs \<Rightarrow> ElementList xs | other \<Rightarrow> TextOf other),
                    severity = json_get result ''severity'' JNull,
                    action_recommended = json_get result ''action_recommended'' JNull\<rparr>)
      | _ \<Rightarrow> Inl TypeError)"

text \<open>\<open>ChatModeratorAgent._parse_response\<close>\<close>

definition parse_response_chat ::
  "(string \<Rightarrow> json option) \<Rightarrow> string \<Rightarrow> error + moderation_result" where
  "parse_response_chat loads response =
     (case loads (extract_json response) of
        None \<Rightarrow> Inl (ValueError ''Invalid JSON response from LLM'')
      | Some v \<Rightarrow>
          (case parse_checks_chat v of
             Inr result \<Rightarrow> Inr result
           | Inl _ \<Rightarrow> Inl (ValueError ''Failed to parse response'')))"

text \<open>
  \<open>ChatModeratorAgent\<close> defines no \<open>process\<close> of its own: its \<open>process\<close> is the inherited
  \<open>BaseAgent.process\<close> over its three operations.
\<close>

definition process_chat ::
  "(string \<Rightarrow> json option) \<Rightarrow> env \<Rightarrow> agent_stats \<Rightarrow> request
   \<Rightarrow> agent_stats \<times> (error + moderation_result \<times> metadata)" where
  "process_chat loads =
     base_process validate_input_chat generate_prompt_chat (parse_response_chat loads)
       ''ChatModeratorAgent''"

section \<open>Sequences of calls\<close>

text \<open>
  An agent instance serving a list of calls one after the other, each call with its own
  environment: the statistics after the last call and the outcome of every call.
\<close>

fun run ::
  "(env \<Rightarrow> agent_stats \<Rightarrow> request \<Rightarrow> agent_stats \<times> 'o) \<Rightarrow> agent_stats \<Rightarrow> (env \<times> request) list
   \<Rightarrow> agent_stats \<times> 'o list" where
  "run process st [] = (st, [])"
| "run process st ((e, d) # calls) =
     (case process e st d of
        (st1, r) \<Rightarrow> (case run process st1 calls of (st2, rs) \<Rightarrow> (st2, r # rs)))"

text \<open>
  A call of the moderation agent succeeded when it returned a verdict. A call of the
  price agent counts as successful when the \<open>try\<close> block of its \<open>process\<close> ran to its end,
  which its result shows in \<open>agent_type\<close>; every degraded result and every exception is
  a failed call.
\<close>

definition chat_ok :: "error + moderation_result \<times> metadata \<Rightarrow> bool" where
  "chat_ok r = (case r of Inl _ \<Rightarrow> False | Inr _ \<Rightarrow> True)"

definition price_ok :: "error + price_result \<Rightarrow> bool" where
  "price_ok r = (case r of Inl _ \<Rightarrow> False
                 | Inr res \<Rightarrow> agent_type (metadata res) = ''price_suggestor'')"

text \<open>The execution ids of the verdicts among the outcomes, in order.\<close>

fun verdict_ids :: "(error + moderation_result \<times> metadata) list \<Rightarrow> exec_id list" where
  "verdict_ids [] = []"
| "verdict_ids (Inl _ # rs) = verdict_ids rs"
| "verdict_ids (Inr (_, md) # rs) = execution_id md # verdict_ids rs"

section \<open>The properties in the words of the specification\<close>

text \<open>A request field, and a numeric request field, of a validated request.\<close>

definition field :: "request \<Rightarrow> string \<Rightarrow> pyval" where
  "field d k = (case d k of None \<Rightarrow> PNone | Some v \<Rightarrow> v)"

definition num_field :: "request \<Rightarrow> string \<Rightarrow> real" where
  "num_field d k = (case num_of (field d k) of None \<Rightarrow> 0 | Some x \<Rightarrow> x)"

text \<open>
  The closed form of the fallback estimate:
  \<open>asking_price \<times> (1 \<midarrow> rate)^age_months \<times> condition_mult \<times> brand_mult \<times> location_mult\<close>.
\<close>

definition spec_closed_form :: "request \<Rightarrow> real" where
  "spec_closed_form d =
     num_field d ''asking_price''
     * (1 - dict_get depreciation_rates (field d ''category'') 0.03) powr num_field d ''age_months''
     * dict_get condition_multipliers (field d ''condition'') 0.70
     * dict_get brand_multipliers (field d ''brand'') 1.0
     * dict_get location_multipliers (field d ''location'') 1.0"

text \<open>
  The five triggering conditions of the fraud score, in the order of the specification,
  and their weights.
\<close>

definition spec_triggers :: "listing list \<Rightarrow> request \<Rightarrow> bool list" where
  "spec_triggers df d =
     (let p = num_field d ''asking_price'';
          a = num_field d ''age_months'';
          prices = map asking_price (by_category df (field d ''category''))
      in [prices \<noteq> [] \<and> below_by p (mean prices) 2 (std prices),
          prices \<noteq> [] \<and> above_by p (mean prices) 3 (std prices),
          a > 120,
          (field d ''brand'' = PStr ''Apple'' \<or> field d ''brand'' = PStr ''Samsung'') \<and> p < 5000,
          field d ''condition'' = PStr ''Like New'' \<and> a > 36])"

definition spec_weights :: "real list" where
  "spec_weights = [0.3, 0.2, 0.1, 0.4, 0.2]"

text \<open>The sum of the weights of the conditions that hold.\<close>

definition spec_score :: "bool list \<Rightarrow> real" where
  "spec_score ts = sum_list (map (\<lambda>(t, w). if t then w else 0) (zip ts spec_weights))"

text \<open>A confidence or score within \<open>[0, 1]\<close>.\<close>

definition in_unit_interval :: "json \<Rightarrow> bool" where
  "in_unit_interval c = (json_is_number c \<and> c \<noteq> JNaN \<and> \<not> json_lt c 0 \<and> \<not> json_gt c 1)"

text \<open>\<open>c \<ge> r\<close> for a decoded number.\<close>

definition json_ge :: "json \<Rightarrow> real \<Rightarrow> bool" where
  "json_ge c r = (json_is_number c \<and> c \<noteq> JNaN \<and> \<not> json_lt c r)"

text \<open>
  The selections of the market analysis: the rows of the requested category and brand,
  and those of them within the age tolerance.
\<close>

definition brand_matches :: "listing list \<Rightarrow> request \<Rightarrow> listing list" where
  "brand_matches df d =
     filter (\<lambda>l. PStr (category l) = field d ''category'' \<and> PStr (brand l) = field d ''brand'') df"

definition near_matches :: "listing list \<Rightarrow> request \<Rightarrow> listing list" where
  "near_matches df d =
     filter (\<lambda>l. \<bar>age_months l - num_field d ''age_months''\<bar> \<le> 12) (brand_matches df d)"


section \<open>Sample requests, replies and environments\<close>

text \<open>The pricing example of the specification, with a location outside the table.\<close>

definition sample_request :: request where
  "sample_request = map_of
     [(''title'', PStr ''iPhone 12''), (''category'', PStr ''Mobile''), (''brand'', PStr ''Apple''),
      (''condition'', PStr ''Good''), (''age_months'', PInt 24), (''asking_price'', PInt 35000),
      (''location'', PStr ''Kochi'')]"

text \<open>The same item when new, and a phone of an unlisted brand of a given age and price.\<close>

definition new_request :: request where
  "new_request = sample_request(''age_months'' \<mapsto> PInt 0)"


text \<open>A request that matches the one camera row of the built-in table, and its analysis.\<close>

definition camera_request :: request where
  "camera_request = map_of
     [(''title'', PStr ''Sony Camera''), (''category'', PStr ''Camera''), (''brand'', PStr ''Sony''),
      (''condition'', PStr ''Like New''), (''age_months'', PInt 6), (''asking_price'', PInt 45000),
      (''location'', PStr ''Pune'')]"

definition camera_analysis :: market_analysis where
  "camera_analysis = \<lparr>similar_items = [sony_camera], avg_price = 45000, min_price = 45000,
     max_price = 45000, depreciation_rate = 2, brand_multiplier = 1.1, location_multiplier = 1.06\<rparr>"

definition chat_request :: "string \<Rightarrow> request" where
  "chat_request m = map_of [(''message'', PStr m)]"

text \<open>Reply texts of the gateway.\<close>

definition reply_mock :: string where
  \<open>reply_mock = ''{"suggested_price_range": {"min": 15000, "max": 18000}, "reasoning": "r", "confidence": 0.75, "market_position": "fairly_priced", "recommendations": []}''\<close>

definition reply_inverted :: string where
  \<open>reply_inverted = ''{"suggested_price_range": {"min": 100, "max": 50}, "reasoning": "r", "confidence": 0.9, "market_position": "fairly_priced", "recommendations": []}''\<close>

definition reply_nan :: string where
  \<open>reply_nan = ''{"suggested_price_range": {"min": 1, "max": 2}, "reasoning": "r", "confidence": NaN, "market_position": "fairly_priced", "recommendations": []}''\<close>

definition reply_safe :: string where
  \<open>reply_safe = ''{"status": "safe", "reason": "ok", "confidence": 0.9, "detected_elements": [], "severity": "low", "action_recommended": "none"}''\<close>

definition reply_unknown :: string where
  \<open>reply_unknown = ''{"error": "Unknown prompt type", "confidence": 0.5}''\<close>

text \<open>
  A decoder that agrees with \<open>json.loads\<close> on the five reply texts above and rejects every
  other text.
\<close>

definition sample_loads :: "string \<Rightarrow> json option" where
  "sample_loads text =
     (if text = reply_mock then
        Some (JObj [(''suggested_price_range'', JObj [(''min'', JInt 15000), (''max'', JInt 18000)]),
                    (''reasoning'', JStr ''r''), (''confidence'', JFloat 0.75),
                    (''market_position'', JStr ''fairly_priced''), (''recommendations'', JArr [])])
      else if text = reply_inverted then
        Some (JObj [(''suggested_price_range'', JObj [(''min'', JInt 100), (''max'', JInt 50)]),
                    (''reasoning'', JStr ''r''), (''confidence'', JFloat 0.9),
                    (''market_position'', JStr ''fairly_priced''), (''recommendations'', JArr [])])
      else if text = reply_nan then
        Some (JObj [(''suggested_price_range'', JObj [(''min'', JInt 1), (''max'', JInt 2)]),
                    (''reasoning'', JStr ''r''), (''confidence'', JNaN),
                    (''market_position'', JStr ''fairly_priced''), (''recommendations'', JArr [])])
      else if text = reply_safe then
        Some (JObj [(''status'', JStr ''safe''), (''reason'', JStr ''ok''),
                    (''confidence'', JFloat 0.9), (''detected_elements'', JArr []),
                    (''severity'', JStr ''low''), (''action_recommended'', JStr ''none'')])
      else if text = reply_unknown then
        Some (JObj [(''error'', JStr ''Unknown prompt type''), (''confidence'', JFloat 0.5)])
      else None)"

text \<open>A gateway that fails on every call, and one that always answers with a given text.\<close>

definition gateway_down :: "nat \<Rightarrow> error + string" where
  "gateway_down k = Inl (GatewayError ''unavailable'')"

definition gateway_reply :: "string \<Rightarrow> nat \<Rightarrow> error + string" where
  "gateway_reply text k = Inr text"

definition sample_env :: "(nat \<Rightarrow> error + string) \<Rightarrow> env" where
  "sample_env g = \<lparr>gateway = g, elapsed = 0.25, uuid4 = ''3f2b8c1e''\<rparr>"

text \<open>Two moderation calls: one answered with a verdict, one with the gateway down.\<close>

definition two_calls :: "(env \<times> request) list" where
  "two_calls = [(sample_env (gateway_reply reply_safe), chat_request ''Is this still available?''),
                (sample_env gateway_down, chat_request ''Is this still available?'')]"

section \<open>Moderation pre-analysis on the examples of the specification\<close>

text \<open>
  C9. The three pre-analysis detectors on the four example messages: the phone detector
  finds the number in "Call me at 9876543210", the abuse detector fires on "This is a scam,
  hurry and pay advance", the external-platform detector fires on "DM me on whatsapp", and
  none of the three fires on "Is this still available?".
\<close>

theorem pre_analysis_examples:
  "detect_phone_number ''Call me at 9876543210''
   \<and> detect_abusive_content ''This is a scam, hurry and pay advance''
   \<and> detect_external_platforms ''DM me on whatsapp''
   \<and> \<not> detect_phone_number ''Is this still available?''
   \<and> \<not> detect_abusive_content ''Is this still available?''
   \<and> \<not> detect_external_platforms ''Is this still available?''"
  by (intro conjI; code_simp)

section \<open>The price agent on a mapping without an asking price\<close>

lemmas price_defs = process_price_def process_price_body_def validate_input_price_def
  required_fields_def bnd_def generate_fallback_pricing_def fallback_pricing_body_def
  emergency_result_def asking_number_def getitem_def

text \<open>
  C1. The claim is that \<open>process\<close> of the price agent returns a result for every input
  mapping. On the empty mapping validation fails, the mathematical fallback fails on
  its first field, the emergency result inside the fallback reads
  \<open>data['asking_price']\<close> and fails, and the emergency result of \<open>process\<close> reads the same
  key: the \<open>KeyError\<close> leaves \<open>process\<close>, after the call was counted as a failed one.
\<close>

theorem process_price_empty_mapping_raises:
  "process_price df loads e st Map.empty
     = (update_stats st False (elapsed e), Inl (KeyError ''asking_price''))"
  by (simp add: price_defs)

section \<open>Statistics\<close>

lemma body_agent_type:
  "process_price_body df loads e d = Inr r \<Longrightarrow> agent_type (metadata r) = ''price_suggestor''"
  by (auto simp: process_price_body_def bnd_def split: sum.splits)

lemma fallback_agent_type:
  "generate_fallback_pricing d t u = Inr r \<Longrightarrow> agent_type (metadata r) \<noteq> ''price_suggestor''"
  by (auto simp: generate_fallback_pricing_def fallback_pricing_body_def emergency_result_def bnd_def Let_def
           split: sum.splits)

lemma emergency_agent_type:
  "emergency_result d t ''emergency_fallback'' u = Inr r \<Longrightarrow> agent_type (metadata r) \<noteq> ''price_suggestor''"
  by (auto simp: emergency_result_def bnd_def split: sum.splits)

lemma process_price_stats:
  "fst (process_price df loads e st d)
     = update_stats st (price_ok (snd (process_price df loads e st d))) (elapsed e)"
  by (auto simp: process_price_def price_ok_def
           dest: body_agent_type fallback_agent_type emergency_agent_type split: sum.splits)

lemma process_chat_stats:
  "fst (process_chat loads e st d)
     = update_stats st (chat_ok (snd (process_chat loads e st d))) (elapsed e)"
  by (auto simp: process_chat_def base_process_def chat_ok_def update_stats_def Let_def split: sum.splits)

lemma run_counts:
  assumes step: "\<And>e st d. fst (process e st d) = update_stats st (ok (snd (process e st d))) (elapsed e)"
  shows "execution_count (fst (run process st calls)) = execution_count st + length calls
       \<and> success_count (fst (run process st calls))
           = success_count st + length (filter ok (snd (run process st calls)))
       \<and> total_processing_time (fst (run process st calls))
           = total_processing_time st + sum_list (map (\<lambda>c. elapsed (fst c)) calls)"
proof (induction calls arbitrary: st)
  case Nil
  show ?case by simp
next
  case (Cons c calls)
  obtain e d where c: "c = (e, d)" by (cases c)
  obtain st1 r where p: "process e st d = (st1, r)" by (cases "process e st d")
  have st1: "st1 = update_stats st (ok r) (elapsed e)"
    using step [of e st d] p by simp
  obtain st2 rs where q: "run process st1 calls = (st2, rs)" by (cases "run process st1 calls")
  from Cons.IH [where st = st1] q st1 show ?case
    by (simp add: c p q update_stats_def Let_def)
qed

lemma run_length: "length (snd (run process st calls)) = length calls"
proof (induction calls arbitrary: st)
  case Nil show ?case by simp
next
  case (Cons c calls)
  obtain e d where c: "c = (e, d)" by (cases c)
  obtain st1 r where p: "process e st d = (st1, r)" by (cases "process e st d")
  obtain st2 rs where q: "run process st1 calls = (st2, rs)" by (cases "run process st1 calls")
  from Cons.IH [where st = st1] q show ?case by (simp add: c p q)
qed

lemma filter_split_length: "length (filter P xs) + length (filter (\<lambda>x. \<not> P x) xs) = length xs"
  by (induction xs) auto

lemma run_statistics:
  assumes step: "\<And>e st d. fst (process e st d) = update_stats st (ok (snd (process e st d))) (elapsed e)"
  shows "(case run process initial_stats calls of (st, rs) \<Rightarrow>
           (let N = length (filter ok rs); M = length (filter (\<lambda>r. \<not> ok r) rs) in
            execution_count st = N + M \<and> success_count st = N
            \<and> success_rate st = (if N + M = 0 then 0 else real N / real (N + M))
            \<and> total_processing_time st = sum_list (map (\<lambda>c. elapsed (fst c)) calls)
            \<and> avg_processing_time st
                = (if N + M = 0 then 0 else sum_list (map (\<lambda>c. elapsed (fst c)) calls) / real (N + M))))"
proof -
  obtain st rs where r: "run process initial_stats calls = (st, rs)"
    by (cases "run process initial_stats calls")
  have len: "length rs = length calls" using run_length [where process = process and st = initial_stats and calls = calls] r by simp
  have nm: "length (filter ok rs) + length (filter (\<lambda>r. \<not> ok r) rs) = length calls"
    using filter_split_length [of ok rs] len by simp
  from run_counts [where process = process and ok = ok and st = initial_stats and calls = calls, OF step] r
  have cnt: "execution_count st = length calls" "success_count st = length (filter ok rs)"
     "total_processing_time st = sum_list (map (\<lambda>c. elapsed (fst c)) calls)"
    by (simp_all add: initial_stats_def)
  show ?thesis
    using cnt nm by (auto simp add: r Let_def success_rate_def avg_processing_time_def)
qed

lemma update_stats_invariant:
  "success_count st \<le> execution_count st \<Longrightarrow>
   success_count (update_stats st b t) \<le> execution_count (update_stats st b t)"
  by (simp add: update_stats_def Let_def)

text \<open>
  C8. An agent instance that starts with fresh statistics and serves any sequence of
  calls, \<open>N\<close> of them successful and \<open>M\<close> failed, ends with \<open>execution_count = N + M\<close>,
  \<open>success_count = N\<close>, \<open>success_rate = N / (N + M)\<close> (0 without a call),
  \<open>total_processing_time\<close> the sum of the elapsed times and \<open>avg_processing_time\<close> that
  sum over \<open>N + M\<close> (0 without a call). This holds for the moderation agent and for the
  price agent, and every \<open>process\<close> call of either agent preserves
  \<open>success_count \<le> execution_count\<close>.
\<close>

theorem agent_statistics:
  "(case run (process_chat loads) initial_stats calls of (st, rs) \<Rightarrow>
           (let N = length (filter chat_ok rs); M = length (filter (\<lambda>r. \<not> chat_ok r) rs) in
            execution_count st = N + M \<and> success_count st = N
            \<and> success_rate st = (if N + M = 0 then 0 else real N / real (N + M))
            \<and> total_processing_time st = sum_list (map (\<lambda>c. elapsed (fst c)) calls)
            \<and> avg_processing_time st
                = (if N + M = 0 then 0 else sum_list (map (\<lambda>c. elapsed (fst c)) calls) / real (N + M))))
   \<and> (case run (process_price df loads) initial_stats calls of (st, rs) \<Rightarrow>
           (let N = length (filter price_ok rs); M = length (filter (\<lambda>r. \<not> price_ok r) rs) in
            execution_count st = N + M \<and> success_count st = N
            \<and> success_rate st = (if N + M = 0 then 0 else real N / real (N + M))
            \<and> total_processing_time st = sum_list (map (\<lambda>c. elapsed (fst c)) calls)
            \<and> avg_processing_time st
                = (if N + M = 0 then 0 else sum_list (map (\<lambda>c. elapsed (fst c)) calls) / real (N + M))))
   \<and> (success_count st0 \<le> execution_count st0 \<longrightarrow>
        success_count (fst (process_chat loads e st0 d)) \<le> execution_count (fst (process_chat loads e st0 d))
      \<and> success_count (fst (process_price df loads e st0 d)) \<le> execution_count (fst (process_price df loads e st0 d)))"
proof (intro conjI impI)
  show "case run (process_chat loads) initial_stats calls of (st, rs) \<Rightarrow>
           (let N = length (filter chat_ok rs); M = length (filter (\<lambda>r. \<not> chat_ok r) rs) in
            execution_count st = N + M \<and> success_count st = N
            \<and> success_rate st = (if N + M = 0 then 0 else real N / real (N + M))
            \<and> total_processing_time st = sum_list (map (\<lambda>c. elapsed (fst c)) calls)
            \<and> avg_processing_time st
                = (if N + M = 0 then 0 else sum_list (map (\<lambda>c. elapsed (fst c)) calls) / real (N + M)))"
    by (rule run_statistics) (rule process_chat_stats)
  show "case run (process_price df loads) initial_stats calls of (st, rs) \<Rightarrow>
           (let N = length (filter price_ok rs); M = length (filter (\<lambda>r. \<not> price_ok r) rs) in
            execution_count st = N + M \<and> success_count st = N
            \<and> success_rate st = (if N + M = 0 then 0 else real N / real (N + M))
            \<and> total_processing_time st = sum_list (map (\<lambda>c. elapsed (fst c)) calls)
            \<and> avg_processing_time st
                = (if N + M = 0 then 0 else sum_list (map (\<lambda>c. elapsed (fst c)) calls) / real (N + M)))"
    by (rule run_statistics) (rule process_price_stats)
next
  assume "success_count st0 \<le> execution_count st0"
  then show "success_count (fst (process_chat loads e st0 d)) \<le> execution_count (fst (process_chat loads e st0 d))"
    by (simp add: process_chat_stats update_stats_invariant)
next
  assume "success_count st0 \<le> execution_count st0"
  then show "success_count (fst (process_price df loads e st0 d)) \<le> execution_count (fst (process_price df loads e st0 d))"
    by (simp add: process_price_stats update_stats_invariant)
qed

section \<open>The agents on the sample replies\<close>

lemma extract_samples:
  "extract_json reply_mock = reply_mock"
  "extract_json reply_inverted = reply_inverted"
  "extract_json reply_nan = reply_nan"
  "extract_json reply_safe = reply_safe"
  "extract_json reply_unknown = reply_unknown"
  by (simp_all add: extract_json_def reply_mock_def reply_inverted_def reply_nan_def reply_safe_def reply_unknown_def)

lemma loads_samples:
  "sample_loads reply_mock =
        Some (JObj [(''suggested_price_range'', JObj [(''min'', JInt 15000), (''max'', JInt 18000)]),
                    (''reasoning'', JStr ''r''), (''confidence'', JFloat 0.75),
                    (''market_position'', JStr ''fairly_priced''), (''recommendations'', JArr [])])"
  "sample_loads reply_inverted =
        Some (JObj [(''suggested_price_range'', JObj [(''min'', JInt 100), (''max'', JInt 50)]),
                    (''reasoning'', JStr ''r''), (''confidence'', JFloat 0.9),
                    (''market_position'', JStr ''fairly_priced''), (''recommendations'', JArr [])])"
  "sample_loads reply_nan =
        Some (JObj [(''suggested_price_range'', JObj [(''min'', JInt 1), (''max'', JInt 2)]),
                    (''reasoning'', JStr ''r''), (''confidence'', JNaN),
                    (''market_position'', JStr ''fairly_priced''), (''recommendations'', JArr [])])"
  "sample_loads reply_safe =
        Some (JObj [(''status'', JStr ''safe''), (''reason'', JStr ''ok''),
                    (''confidence'', JFloat 0.9), (''detected_elements'', JArr []),
                    (''severity'', JStr ''low''), (''action_recommended'', JStr ''none'')])"
  "sample_loads reply_unknown =
        Some (JObj [(''error'', JStr ''Unknown prompt type''), (''confidence'', JFloat 0.5)])"
  by (simp_all add: sample_loads_def reply_mock_def reply_inverted_def reply_nan_def reply_safe_def reply_unknown_def)

lemma retry_reply:
  "call_llm_with_retry (gateway_reply reply_mock) 2 = Inr reply_mock"
  "call_llm_with_retry (gateway_reply reply_inverted) 2 = Inr reply_inverted"
  "call_llm_with_retry (gateway_reply reply_nan) 2 = Inr reply_nan"
  "call_llm_with_retry (gateway_reply reply_safe) 2 = Inr reply_safe"
  "call_llm_with_retry (gateway_reply reply_unknown) 2 = Inr reply_unknown"
  by (simp_all add: call_llm_with_retry_def numeral_2_eq_2 attempt_def gateway_reply_def bnd_def strip_def is_space_def
      reply_mock_def reply_inverted_def reply_nan_def reply_safe_def reply_unknown_def)

lemma retry_down: "call_llm_with_retry gateway_down 2 = Inl (GatewayError ''unavailable'')"
  by (simp add: call_llm_with_retry_def numeral_2_eq_2 attempt_def gateway_down_def bnd_def)

lemmas data_defs = create_fallback_data_def iphone12_def galaxy_s21_def macbook_air_def
  dell_inspiron_def sony_camera_def


lemma parse_nan: "parse_response_price sample_loads reply_nan = Inr [(''suggested_price_range'', JObj [(''min'', JInt 1), (''max'', JInt 2)]),
                    (''reasoning'', JStr ''r''), (''confidence'', JNaN),
                    (''market_position'', JStr ''fairly_priced''), (''recommendations'', JArr [])]"
  by (simp add: parse_response_price_def extract_samples loads_samples parse_checks_price_def bnd_def json_get_def bad_confidence_def)

lemma camera_valid: "validate_input_price camera_request = Inr ()"
  by (simp add: validate_input_price_def camera_request_def required_fields_def bnd_def getitem_def valid_conditions_def)

lemma camera_market: "analyze_market create_fallback_data camera_request = Inr camera_analysis"
  by (simp add: analyze_market_def analyze_market_body_def camera_request_def bnd_def getitem_def
     find_similar_products_def data_defs asking_number_def camera_analysis_def
     as_number_def by_category_def mean_def Let_def depreciation_rates_def brand_multipliers_def location_multipliers_def)

lemma camera_fraud: "detect_fraud_indicators create_fallback_data camera_request =
    \<lparr>fraud_score = 0, fraud_indicators = [], risk_level = ''low''\<rparr>"
  by (simp add: detect_fraud_indicators_def detect_fraud_body_def camera_request_def bnd_def getitem_def
     data_defs as_number_def by_category_def mean_def std_def flag_def above_by_def below_by_def Let_def)

lemma camera_confidence: "calculate_confidence_score camera_request camera_analysis = 0.9"
  by (simp add: calculate_confidence_score_def calculate_confidence_body_def camera_request_def bnd_def getitem_def
      as_number_def brand_multipliers_def required_fields_def Let_def camera_analysis_def)

lemma camera_items: "getitems camera_request required_fields = Inr ()"
  by (simp add: required_fields_def getitem_def camera_request_def bnd_def)

lemma camera_prompt: "generate_prompt_price create_fallback_data camera_request = Inr (MarketPrompt camera_analysis)"
  by (simp add: generate_prompt_price_def camera_market camera_items bnd_def)

section \<open>Moderation agent: failures leave the call\<close>

lemma retry_two:
  "call_llm_with_retry g 2 = (case attempt g 0 of Inr r \<Rightarrow> Inr r | Inl _ \<Rightarrow> attempt g 1)"
  by (simp add: call_llm_with_retry_def numeral_2_eq_2 split: sum.splits)

lemma chat_prompt_total:
  "validate_input_chat d = Inr () \<Longrightarrow> \<exists>p. generate_prompt_chat d = Inr p"
  by (auto simp: validate_input_chat_def generate_prompt_chat_def getitem_def bnd_def
           split: option.splits pyval.splits if_splits)

lemma process_chat_result:
  "snd (process_chat loads e st d) =
     (case validate_input_chat d of
        Inl err \<Rightarrow> Inl err
      | Inr _ \<Rightarrow>
          (case call_llm_with_retry (gateway e) 2 of
             Inl err \<Rightarrow> Inl err
           | Inr response \<Rightarrow>
               (case parse_response_chat loads response of
                  Inl err \<Rightarrow> Inl err
                | Inr r \<Rightarrow> Inr (r, \<lparr>processing_time = elapsed e, agent_type = ''ChatModeratorAgent'',
                                     execution_id = IdCount (execution_count st + 1)\<rparr>))))"
proof (cases "validate_input_chat d")
  case (Inl err)
  then show ?thesis by (simp add: process_chat_def base_process_def bnd_def Let_def)
next
  case (Inr u)
  then obtain p where "generate_prompt_chat d = Inr p"
    using chat_prompt_total [of d] by auto
  with Inr show ?thesis
    by (simp add: process_chat_def base_process_def bnd_def Let_def split: sum.splits)
qed

text \<open>
  C5. The moderation agent's \<open>process\<close> is the shared pipeline. The exception of a failed
  validation leaves \<open>process\<close> as it is; when validation passes and both generation
  attempts fail, the exception of the second attempt leaves it; when a reply arrives
  and its parsing fails, the exception of the parser leaves it. A verdict is returned
  only when validation, generation and parsing all succeeded: there is no fallback
  verdict.
\<close>

theorem chat_process_propagates_failures:
  "(validate_input_chat d = Inl err \<longrightarrow> snd (process_chat loads e st d) = Inl err)
   \<and> (validate_input_chat d = Inr () \<and> attempt (gateway e) 0 = Inl err0
        \<and> attempt (gateway e) 1 = Inl err \<longrightarrow> snd (process_chat loads e st d) = Inl err)
   \<and> (validate_input_chat d = Inr () \<and> call_llm_with_retry (gateway e) 2 = Inr response
        \<and> parse_response_chat loads response = Inl err
        \<longrightarrow> snd (process_chat loads e st d) = Inl err)
   \<and> (snd (process_chat loads e st d) = Inr (r, md) \<longrightarrow>
        validate_input_chat d = Inr ()
        \<and> (\<exists>response. call_llm_with_retry (gateway e) 2 = Inr response
                        \<and> parse_response_chat loads response = Inr r))"
  by (auto simp: process_chat_result retry_two split: sum.splits)

lemma chat_valid: "validate_input_chat (chat_request ''Is this still available?'') = Inr ()"
  by (simp add: validate_input_chat_def chat_request_def strip_def is_space_def)

lemma chat_invalid: "validate_input_chat (chat_request []) = Inl (ValueError ''Message cannot be empty'')"
  by (simp add: validate_input_chat_def chat_request_def strip_def is_space_def)

lemma attempt_down: "attempt (gateway (sample_env gateway_down)) k = Inl (GatewayError ''unavailable'')"
  by (simp add: attempt_def sample_env_def gateway_down_def bnd_def)

lemma parse_unknown: "parse_response_chat sample_loads reply_unknown = Inl (ValueError ''Failed to parse response'')"
  by (simp add: parse_response_chat_def extract_samples loads_samples parse_checks_chat_def bnd_def)

text \<open>
  C5 at concrete calls: an empty message, a gateway that is down, and a reply without
  the required fields.
\<close>

theorem chat_process_propagates_failures_witness:
  "validate_input_chat (chat_request []) = Inl (ValueError ''Message cannot be empty'')
   \<and> snd (process_chat sample_loads (sample_env gateway_down) initial_stats (chat_request []))
       = Inl (ValueError ''Message cannot be empty'')
   \<and> validate_input_chat (chat_request ''Is this still available?'') = Inr ()
   \<and> attempt (gateway (sample_env gateway_down)) 0 = Inl (GatewayError ''unavailable'')
   \<and> attempt (gateway (sample_env gateway_down)) 1 = Inl (GatewayError ''unavailable'')
   \<and> snd (process_chat sample_loads (sample_env gateway_down) initial_stats
            (chat_request ''Is this still available?'')) = Inl (GatewayError ''unavailable'')
   \<and> call_llm_with_retry (gateway (sample_env (gateway_reply reply_unknown))) 2 = Inr reply_unknown
   \<and> parse_response_chat sample_loads reply_unknown = Inl (ValueError ''Failed to parse response'')
   \<and> snd (process_chat sample_loads (sample_env (gateway_reply reply_unknown)) initial_stats
            (chat_request ''Is this still available?'')) = Inl (ValueError ''Failed to parse response'')"
proof -
  have g: "gateway (sample_env (gateway_reply reply_unknown)) = gateway_reply reply_unknown"
    by (simp add: sample_env_def)
  note t1 = chat_process_propagates_failures
    [where d = "chat_request []" and err = "ValueError ''Message cannot be empty''"
       and loads = sample_loads and e = "sample_env gateway_down" and st = initial_stats]
  note t2 = chat_process_propagates_failures
    [where d = "chat_request ''Is this still available?''" and err = "GatewayError ''unavailable''"
       and ?err0.0 = "GatewayError ''unavailable''"
       and loads = sample_loads and e = "sample_env gateway_down" and st = initial_stats]
  note t3 = chat_process_propagates_failures
    [where d = "chat_request ''Is this still available?''"
       and err = "ValueError ''Failed to parse response''" and response = reply_unknown
       and loads = sample_loads and e = "sample_env (gateway_reply reply_unknown)"
       and st = initial_stats]
  have a: "snd (process_chat sample_loads (sample_env gateway_down) initial_stats (chat_request []))
       = Inl (ValueError ''Message cannot be empty'')"
    using t1 chat_invalid by blast
  have b: "snd (process_chat sample_loads (sample_env gateway_down) initial_stats
            (chat_request ''Is this still available?'')) = Inl (GatewayError ''unavailable'')"
    using t2 chat_valid attempt_down by blast
  have c: "snd (process_chat sample_loads (sample_env (gateway_reply reply_unknown)) initial_stats
            (chat_request ''Is this still available?'')) = Inl (ValueError ''Failed to parse response'')"
    using t3 chat_valid parse_unknown retry_reply(5) g by simp
  show ?thesis
    using a b c chat_invalid chat_valid attempt_down parse_unknown retry_reply(5) g by simp
qed

section \<open>Execution ids\<close>

lemma process_chat_count:
  "execution_count (fst (process_chat loads e st d)) = execution_count st + 1"
  by (simp add: process_chat_stats update_stats_def Let_def)

lemma chat_id_is_count:
  "snd (process_chat loads e st d) = Inr (r, md) \<Longrightarrow>
   execution_id md = IdCount (execution_count (fst (process_chat loads e st d)))"
  by (auto simp: process_chat_count process_chat_result split: sum.splits)

lemma verdict_ids_later:
  "x \<in> set (verdict_ids (snd (run (process_chat loads) st calls))) \<Longrightarrow>
   \<exists>n. x = IdCount n \<and> execution_count st < n"
proof (induction calls arbitrary: st x)
  case Nil
  then show ?case by simp
next
  case (Cons c calls)
  obtain e d where c: "c = (e, d)" by (cases c)
  obtain st1 r where p: "process_chat loads e st d = (st1, r)" by (cases "process_chat loads e st d")
  obtain st2 rs where q: "run (process_chat loads) st1 calls = (st2, rs)"
    by (cases "run (process_chat loads) st1 calls")
  have cnt: "execution_count st1 = execution_count st + 1"
    using process_chat_count [of loads e st d] p by simp
  have tail: "\<And>y. y \<in> set (verdict_ids rs) \<Longrightarrow> \<exists>n. y = IdCount n \<and> execution_count st < n"
    using Cons.IH [where st = st1] q cnt by fastforce
  show ?case
  proof (cases r)
    case (Inl err)
    with Cons.prems tail show ?thesis by (simp add: c p q)
  next
    case (Inr v)
    obtain res md where v: "v = (res, md)" by (cases v)
    have "execution_id md = IdCount (execution_count st1)"
      using chat_id_is_count [of loads e st d res md] p Inr v by simp
    with Cons.prems tail cnt show ?thesis by (auto simp: c p q Inr v)
  qed
qed

lemma verdict_ids_distinct:
  "distinct (verdict_ids (snd (run (process_chat loads) st calls)))"
proof (induction calls arbitrary: st)
  case Nil
  show ?case by simp
next
  case (Cons c calls)
  obtain e d where c: "c = (e, d)" by (cases c)
  obtain st1 r where p: "process_chat loads e st d = (st1, r)" by (cases "process_chat loads e st d")
  obtain st2 rs where q: "run (process_chat loads) st1 calls = (st2, rs)"
    by (cases "run (process_chat loads) st1 calls")
  have d: "distinct (verdict_ids rs)" using Cons.IH [where st = st1] q by simp
  show ?case
  proof (cases r)
    case (Inl err)
    with d show ?thesis by (simp add: c p q)
  next
    case (Inr v)
    obtain res md where v: "v = (res, md)" by (cases v)
    have id: "execution_id md = IdCount (execution_count st1)"
      using chat_id_is_count [of loads e st d res md] p Inr v by simp
    have "execution_id md \<notin> set (verdict_ids rs)"
      using verdict_ids_later [of "execution_id md" loads st1 calls] q id by auto
    with d show ?thesis by (simp add: c p q Inr v)
  qed
qed

lemma price_id_is_uuid:
  "snd (process_price df loads e st d) = Inr res \<Longrightarrow> execution_id (metadata res) = IdUuid (uuid4 e)"
  by (auto simp: process_price_def process_price_body_def generate_fallback_pricing_def
        fallback_pricing_body_def emergency_result_def bnd_def Let_def split: sum.splits)

text \<open>
  C7, amended. A verdict of the moderation agent carries as \<open>execution_id\<close> the agent's
  \<open>execution_count\<close> at that call, and over any sequence of calls of one agent instance
  the ids of the verdicts are pairwise distinct. The price agent overrides \<open>process\<close>:
  every result it returns carries the value of \<open>uuid.uuid4()\<close> as \<open>execution_id\<close>, not a
  count.
\<close>

theorem execution_ids:
  "(snd (process_chat loads e st d) = Inr (r, md) \<longrightarrow>
      execution_id md = IdCount (execution_count (fst (process_chat loads e st d))))
   \<and> distinct (verdict_ids (snd (run (process_chat loads) st calls)))
   \<and> (snd (process_price df loads e st d) = Inr res \<longrightarrow>
        execution_id (metadata res) = IdUuid (uuid4 e))"
  using chat_id_is_count verdict_ids_distinct price_id_is_uuid by blast

section \<open>Market analysis\<close>

lemma valid_fields:
  assumes "validate_input_price d = Inr ()"
  obtains t cat br cs ag ap loc a p where
    "d ''title'' = Some t" "d ''category'' = Some cat" "d ''brand'' = Some br"
    "d ''condition'' = Some (PStr cs)" "cs \<in> set valid_conditions"
    "d ''age_months'' = Some ag" "num_of ag = Some a" "0 \<le> a"
    "d ''asking_price'' = Some ap" "num_of ap = Some p" "0 < p" "d ''location'' = Some loc"
  using assms
  by (auto simp: validate_input_price_def required_fields_def bnd_def getitem_def
           split: if_splits option.splits pyval.splits)

lemma find_similar_valid:
  assumes "num_of age = Some a"
  shows "find_similar_products df cat br age 12 =
     Inr (let m = filter (\<lambda>l. PStr (category l) = cat \<and> PStr (brand l) = br) df;
              n = filter (\<lambda>l. \<bar>age_months l - a\<bar> \<le> 12) m
          in if n \<noteq> [] then n else if m \<noteq> [] then m else by_category df cat)"
  using assms
  by (auto simp: find_similar_products_def bnd_def as_number_def Let_def filter_empty_conv)

lemma analyze_market_valid:
  assumes v: "validate_input_price d = Inr ()"
  shows "\<exists>ma. analyze_market df d = Inr ma
     \<and> similar_items ma =
         (if near_matches df d \<noteq> [] then near_matches df d
          else if brand_matches df d \<noteq> [] then brand_matches df d
          else by_category df (field d ''category''))
     \<and> (similar_items ma = [] \<longrightarrow>
          avg_price ma = num_field d ''asking_price''
          \<and> min_price ma = num_field d ''asking_price'' * 0.8
          \<and> max_price ma = num_field d ''asking_price'' * 1.2)
     \<and> (similar_items ma \<noteq> [] \<longrightarrow>
          avg_price ma = mean (map asking_price (similar_items ma))
          \<and> min_price ma = minimum (map asking_price (similar_items ma))
          \<and> max_price ma = maximum (map asking_price (similar_items ma)))"
proof -
  from v obtain t cat br cs ag ap loc a p where f:
    "d ''title'' = Some t" "d ''category'' = Some cat" "d ''brand'' = Some br"
    "d ''condition'' = Some (PStr cs)" "cs \<in> set valid_conditions"
    "d ''age_months'' = Some ag" "num_of ag = Some a" "0 \<le> a"
    "d ''asking_price'' = Some ap" "num_of ap = Some p" "0 < p" "d ''location'' = Some loc"
    by (rule valid_fields)
  have fs: "field d ''category'' = cat" "field d ''brand'' = br"
    "num_field d ''age_months'' = a" "num_field d ''asking_price'' = p"
    using f by (simp_all add: field_def num_field_def)
  have ask: "asking_number d = Inr p"
    using f by (simp add: asking_number_def getitem_def bnd_def as_number_def)
  show ?thesis
    using f(2,3,6,12) ask
    by (simp add: analyze_market_def analyze_market_body_def getitem_def bnd_def
          find_similar_valid [OF f(7)] near_matches_def brand_matches_def fs Let_def)
qed

text \<open>
  C6, amended. For a valid request the market analysis returns: the rows of the
  requested category and brand within 12 months of the requested age when there is such
  a row (then every returned row is within 12 months); else all rows of that category
  and brand, whatever their age, when there is one; else the rows of the category. With
  no row at all the average is the asking price and the bounds are the asking price
  times 0.8 and 1.2; otherwise average, minimum and maximum are taken over the returned
  rows.
\<close>

theorem market_analysis_selection:
  assumes "validate_input_price d = Inr ()"
  shows "\<exists>ma. analyze_market df d = Inr ma
     \<and> similar_items ma =
         (if near_matches df d \<noteq> [] then near_matches df d
          else if brand_matches df d \<noteq> [] then brand_matches df d
          else by_category df (field d ''category''))
     \<and> (near_matches df d \<noteq> [] \<longrightarrow>
          (\<forall>l \<in> set (similar_items ma).
             PStr (category l) = field d ''category'' \<and> PStr (brand l) = field d ''brand''
             \<and> \<bar>age_months l - num_field d ''age_months''\<bar> \<le> 12))
     \<and> (similar_items ma = [] \<longrightarrow>
          avg_price ma = num_field d ''asking_price''
          \<and> min_price ma = num_field d ''asking_price'' * 0.8
          \<and> max_price ma = num_field d ''asking_price'' * 1.2)
     \<and> (similar_items ma \<noteq> [] \<longrightarrow>
          avg_price ma = mean (map asking_price (similar_items ma))
          \<and> min_price ma = minimum (map asking_price (similar_items ma))
          \<and> max_price ma = maximum (map asking_price (similar_items ma)))"
proof -
  from analyze_market_valid [OF assms, of df] obtain ma where ma:
    "analyze_market df d = Inr ma"
    "similar_items ma =
         (if near_matches df d \<noteq> [] then near_matches df d
          else if brand_matches df d \<noteq> [] then brand_matches df d
          else by_category df (field d ''category''))"
    "similar_items ma = [] \<longrightarrow>
          avg_price ma = num_field d ''asking_price''
          \<and> min_price ma = num_field d ''asking_price'' * 0.8
          \<and> max_price ma = num_field d ''asking_price'' * 1.2"
    "similar_items ma \<noteq> [] \<longrightarrow>
          avg_price ma = mean (map asking_price (similar_items ma))
          \<and> min_price ma = minimum (map asking_price (similar_items ma))
          \<and> max_price ma = maximum (map asking_price (similar_items ma))"
    by blast
  have "near_matches df d \<noteq> [] \<longrightarrow>
          (\<forall>l \<in> set (similar_items ma).
             PStr (category l) = field d ''category'' \<and> PStr (brand l) = field d ''brand''
             \<and> \<bar>age_months l - num_field d ''age_months''\<bar> \<le> 12)"
    using ma(2) by (auto simp: near_matches_def brand_matches_def)
  with ma show ?thesis by blast
qed

lemma new_request_valid: "validate_input_price new_request = Inr ()"
  by (simp add: validate_input_price_def new_request_def sample_request_def required_fields_def
        bnd_def getitem_def valid_conditions_def)

text \<open>
  C6 as stated fails: for a new Apple mobile the only row of that category and brand is
  24 months old; the age filter leaves nothing and is dropped, so the analysis returns
  that row (it neither keeps to the tolerance nor widens to the category).
\<close>

theorem market_analysis_selection_counterexample:
  "analyze_market create_fallback_data new_request
     = Inr \<lparr>similar_items = [iphone12], avg_price = 35000, min_price = 35000, max_price = 35000,
            depreciation_rate = 5, brand_multiplier = 1.2, location_multiplier = 1\<rparr>
   \<and> new_request ''category'' = Some (PStr (category iphone12))
   \<and> new_request ''brand'' = Some (PStr (brand iphone12))
   \<and> new_request ''age_months'' = Some (PInt 0)
   \<and> \<not> \<bar>age_months iphone12 - 0\<bar> \<le> 12"
  by (simp add: analyze_market_def analyze_market_body_def new_request_def sample_request_def
        bnd_def getitem_def find_similar_products_def data_defs asking_number_def as_number_def
        by_category_def mean_def Let_def depreciation_rates_def brand_multipliers_def
        location_multipliers_def)

text \<open>C6, amended, at the camera request: the one matching row is 0 months away.\<close>

theorem market_analysis_selection_witness:
  "validate_input_price camera_request = Inr ()
   \<and> (\<exists>ma. analyze_market create_fallback_data camera_request = Inr ma
           \<and> similar_items ma = [sony_camera]
           \<and> list_all (\<lambda>l. \<bar>age_months l - 6\<bar> \<le> 12) (similar_items ma))"
proof -
  have near: "near_matches create_fallback_data camera_request = [sony_camera]"
    by (simp add: near_matches_def brand_matches_def field_def num_field_def camera_request_def
          data_defs)
  from market_analysis_selection [OF camera_valid, of create_fallback_data] near
  show ?thesis
    by (auto simp: camera_valid sony_camera_def)
qed

section \<open>Fallback pricing\<close>






lemma sample_closed_form: "spec_closed_form sample_request = 35000 * (19 / 20) ^ 24 * (21 / 25)"
  by (simp add: spec_closed_form_def sample_request_def field_def num_field_def
        depreciation_rates_def condition_multipliers_def brand_multipliers_def
        location_multipliers_def)



lemma sample_round: "round (spec_closed_form sample_request * 0.85) = 7297"
  unfolding sample_closed_form round_def by (rule floor_unique) (simp_all add: power_divide)




section \<open>Range and confidence of the price result\<close>

lemma confidence_score_bounds:
  "0.5 \<le> calculate_confidence_score d ma \<and> calculate_confidence_score d ma \<le> 1"
  by (auto simp: calculate_confidence_score_def calculate_confidence_body_def bnd_def Let_def
           split: sum.splits if_splits)

lemma check_reply_fields_present:
  "check_reply_fields result fs = Inr () \<Longrightarrow> f \<in> set fs \<Longrightarrow> map_of result f \<noteq> None"
  by (induction fs) (auto split: if_splits)

lemma parse_checks_confidence:
  assumes "parse_checks_price v = Inr result"
  shows "\<not> bad_confidence (json_get result ''confidence'' (JInt 0))"
proof -
  from assms obtain obj where v: "v = JObj obj"
    by (cases v) (simp_all add: parse_checks_price_def)
  from assms v have chk: "check_reply_fields obj
                 [''suggested_price_range'', ''reasoning'', ''confidence'', ''market_position'',
                  ''recommendations''] = Inr ()"
    by (auto simp: parse_checks_price_def bnd_def simp del: check_reply_fields.simps
             split: sum.splits)
  from assms v chk have r: "result = obj"
    and ok: "\<not> bad_confidence (json_get obj ''confidence'' JNull)"
    by (auto simp: parse_checks_price_def bnd_def simp del: check_reply_fields.simps
             split: if_splits)
  have "map_of obj ''confidence'' \<noteq> None"
    by (rule check_reply_fields_present [OF chk]) simp
  then have "json_get obj ''confidence'' (JInt 0) = json_get obj ''confidence'' JNull"
    by (auto simp: json_get_def)
  with ok r show ?thesis by simp
qed

lemma parse_response_confidence:
  "parse_response_price loads response = Inr result \<Longrightarrow>
   \<not> bad_confidence (json_get result ''confidence'' (JInt 0))"
  by (auto simp: parse_response_price_def dest: parse_checks_confidence
           split: option.splits sum.splits)

lemma max_confidence_cases:
  assumes "\<not> bad_confidence c" "0.5 \<le> enh" "enh \<le> 1"
  shows "max_confidence c enh = JNaN \<and> c = JNaN
         \<or> in_unit_interval (max_confidence c enh) \<and> json_ge (max_confidence c enh) 0.5"
  using assms
  by (cases c) (auto simp: max_confidence_def bad_confidence_def in_unit_interval_def json_ge_def)

lemma body_confidence:
  assumes "process_price_body df loads e d = Inr r"
  shows "confidence r = JNaN
         \<or> in_unit_interval (confidence r) \<and> json_ge (confidence r) 0.5"
proof -
  from assms obtain result ma where
    p: "\<not> bad_confidence (json_get result ''confidence'' (JInt 0))" and
    c: "confidence r = max_confidence (json_get result ''confidence'' (JInt 0))
                         (calculate_confidence_score d ma)"
    by (auto simp: process_price_body_def bnd_def Let_def dest: parse_response_confidence
             split: sum.splits)
  from max_confidence_cases [OF p] confidence_score_bounds [of d ma] c
  show ?thesis by auto
qed




lemma parse_mock: "parse_response_price sample_loads reply_mock = Inr [(''suggested_price_range'', JObj [(''min'', JInt 15000), (''max'', JInt 18000)]),
                    (''reasoning'', JStr ''r''), (''confidence'', JFloat 0.75),
                    (''market_position'', JStr ''fairly_priced''), (''recommendations'', JArr [])]"
  by (simp add: parse_response_price_def extract_samples loads_samples parse_checks_price_def bnd_def json_get_def bad_confidence_def)

lemmas camera_steps = process_price_def process_price_body_def camera_valid camera_prompt
  retry_reply camera_fraud camera_market camera_confidence bnd_def sample_env_def json_get_def
  max_confidence_def update_stats_def initial_stats_def Let_def

lemma camera_mock_call:
  "process_price create_fallback_data sample_loads (sample_env (gateway_reply reply_mock))
     initial_stats camera_request
   = (\<lparr>execution_count = 1, success_count = 1, total_processing_time = 0.25\<rparr>,
      Inr \<lparr>suggested_price_range = JObj [(''min'', JInt 15000), (''max'', JInt 18000)],
           confidence = JFloat 0.9, market_position = JStr ''fairly_priced'',
           fraud_analysis = Some \<lparr>fraud_score = 0, fraud_indicators = [], risk_level = ''low''\<rparr>,
           metadata = \<lparr>processing_time = 0.25, agent_type = ''price_suggestor'',
                        execution_id = IdUuid ''3f2b8c1e''\<rparr>\<rparr>)"
  by (simp add: camera_steps parse_mock)


lemma camera_nan_call:
  "snd (process_price create_fallback_data sample_loads (sample_env (gateway_reply reply_nan))
     initial_stats camera_request)
   = Inr \<lparr>suggested_price_range = JObj [(''min'', JInt 1), (''max'', JInt 2)],
           confidence = JNaN, market_position = JStr ''fairly_priced'',
           fraud_analysis = Some \<lparr>fraud_score = 0, fraud_indicators = [], risk_level = ''low''\<rparr>,
           metadata = \<lparr>processing_time = 0.25, agent_type = ''price_suggestor'',
                        execution_id = IdUuid ''3f2b8c1e''\<rparr>\<rparr>"
  by (simp add: camera_steps parse_nan)

text \<open>
  C7 as stated fails for the price agent: the first call of a fresh price agent
  succeeds, the count is 1 and the \<open>execution_id\<close> is the UUID text.
\<close>

theorem execution_ids_counterexample:
  "execution_count (fst (process_price create_fallback_data sample_loads
       (sample_env (gateway_reply reply_mock)) initial_stats camera_request)) = 1
   \<and> success_count (fst (process_price create_fallback_data sample_loads
       (sample_env (gateway_reply reply_mock)) initial_stats camera_request)) = 1
   \<and> metadata (projr (snd (process_price create_fallback_data sample_loads
       (sample_env (gateway_reply reply_mock)) initial_stats camera_request)))
       = \<lparr>processing_time = 0.25, agent_type = ''price_suggestor'',
          execution_id = IdUuid ''3f2b8c1e''\<rparr>
   \<and> IdUuid ''3f2b8c1e'' \<noteq> IdCount 1"
  by (simp add: camera_mock_call)





text \<open>
  C10. The claim is that a parsed reply always leads to a confidence of at least 0.5. A
  reply whose confidence is the literal \<open>NaN\<close> passes the range check of the parser
  (both comparisons are false) and wins the \<open>max\<close> (the enhanced score is not greater
  than it): the returned confidence is NaN, which is not at least 0.5.
\<close>

theorem process_price_nan_confidence:
  "validate_input_price camera_request = Inr ()
   \<and> snd (process_price create_fallback_data sample_loads (sample_env (gateway_reply reply_nan))
     initial_stats camera_request)
   = Inr \<lparr>suggested_price_range = JObj [(''min'', JInt 1), (''max'', JInt 2)],
           confidence = JNaN, market_position = JStr ''fairly_priced'',
           fraud_analysis = Some \<lparr>fraud_score = 0, fraud_indicators = [], risk_level = ''low''\<rparr>,
           metadata = \<lparr>processing_time = 0.25, agent_type = ''price_suggestor'',
                        execution_id = IdUuid ''3f2b8c1e''\<rparr>\<rparr>
   \<and> \<not> json_ge JNaN 0.5"
  by (simp add: camera_nan_call camera_valid json_ge_def)

text \<open>A parsed reply whose confidence is not NaN does lead to a confidence of at least 0.5.\<close>

lemma confidence_at_least_half:
  "process_price_body df loads e d = Inr r \<Longrightarrow> confidence r \<noteq> JNaN \<Longrightarrow> json_ge (confidence r) 0.5"
  using body_confidence by blast

section \<open>Fraud score\<close>


lemma spec_triggers_list:
  obtains c1 c2 c3 c4 c5 where "spec_triggers df d = [c1, c2, c3, c4, c5]"
  by (simp add: spec_triggers_def Let_def)

lemma spec_score_five:
  "spec_score [c1, c2, c3, c4, c5] =
     (if c1 then 0.3 else 0) + (if c2 then 0.2 else 0) + (if c3 then 0.1 else 0)
     + (if c4 then 0.4 else 0) + (if c5 then 0.2 else 0)"
  by (simp add: spec_score_def spec_weights_def)





lemma spec_score_nonneg: "0 \<le> spec_score (spec_triggers df d)"
  by (simp add: spec_triggers_def Let_def spec_score_five)





section \<open>The properties at concrete calls\<close>








lemma parse_safe:
  "parse_response_chat sample_loads reply_safe =
     Inr \<lparr>status = JStr ''safe'', reason = JStr ''ok'', verdict_confidence = JFloat 0.9,
          detected_elements = ElementList [], severity = JStr ''low'',
          action_recommended = JStr ''none''\<rparr>"
  by (simp add: parse_response_chat_def extract_samples loads_samples parse_checks_chat_def
        bnd_def json_get_def bad_confidence_def)

lemma chat_safe_call:
  "snd (process_chat sample_loads (sample_env (gateway_reply reply_safe)) st
          (chat_request ''Is this still available?''))
     = Inr (\<lparr>status = JStr ''safe'', reason = JStr ''ok'', verdict_confidence = JFloat 0.9,
              detected_elements = ElementList [], severity = JStr ''low'',
              action_recommended = JStr ''none''\<rparr>,
            \<lparr>processing_time = 0.25, agent_type = ''ChatModeratorAgent'',
              execution_id = IdCount (execution_count st + 1)\<rparr>)"
  by (simp add: process_chat_result chat_valid sample_env_def retry_reply parse_safe)

lemma chat_down_call:
  "snd (process_chat sample_loads (sample_env gateway_down) st
          (chat_request ''Is this still available?'')) = Inl (GatewayError ''unavailable'')"
  by (simp add: process_chat_result chat_valid sample_env_def retry_down)

text \<open>C7, amended, at a concrete call of each agent.\<close>

theorem execution_ids_witness:
  "(\<exists>r md. snd (process_chat sample_loads (sample_env (gateway_reply reply_safe)) initial_stats
                   (chat_request ''Is this still available?'')) = Inr (r, md)
            \<and> execution_id md = IdCount 1)
   \<and> (\<exists>res. snd (process_price create_fallback_data sample_loads
                    (sample_env (gateway_reply reply_mock)) initial_stats camera_request) = Inr res
            \<and> execution_id (metadata res) = IdUuid ''3f2b8c1e'')"
proof -
  obtain r md where c: "snd (process_chat sample_loads (sample_env (gateway_reply reply_safe))
      initial_stats (chat_request ''Is this still available?'')) = Inr (r, md)"
    by (simp add: chat_safe_call)
  have "execution_count (fst (process_chat sample_loads (sample_env (gateway_reply reply_safe))
      initial_stats (chat_request ''Is this still available?''))) = 1"
    by (simp add: process_chat_count initial_stats_def)
  with c have id: "execution_id md = IdCount 1"
    using execution_ids [where loads = sample_loads and e = "sample_env (gateway_reply reply_safe)"
        and st = initial_stats and d = "chat_request ''Is this still available?''"
        and r = r and md = md]
    by simp
  obtain res where p: "snd (process_price create_fallback_data sample_loads
      (sample_env (gateway_reply reply_mock)) initial_stats camera_request) = Inr res"
    by (simp add: camera_mock_call)
  have "execution_id (metadata res) = IdUuid (uuid4 (sample_env (gateway_reply reply_mock)))"
    using execution_ids [where df = create_fallback_data and loads = sample_loads
        and e = "sample_env (gateway_reply reply_mock)" and st = initial_stats
        and d = camera_request and res = res] p
    by simp
  then have "execution_id (metadata res) = IdUuid ''3f2b8c1e''"
    by (simp add: sample_env_def)
  with c id p show ?thesis by blast
qed

lemma run_outcomes:
  "snd (run process st ((e, d) # calls))
     = snd (process e st d) # snd (run process (fst (process e st d)) calls)"
  by (simp split: prod.splits)

text \<open>
  C8 at concrete calls: the invariant from the fresh statistics through one call of each
  agent, and the counters after a verdict followed by a gateway failure.
\<close>

theorem agent_statistics_witness:
  "success_count initial_stats \<le> execution_count initial_stats
   \<and> success_count (fst (process_chat sample_loads (sample_env gateway_down) initial_stats
                          (chat_request ''Is this still available?'')))
       \<le> execution_count (fst (process_chat sample_loads (sample_env gateway_down) initial_stats
                          (chat_request ''Is this still available?'')))
   \<and> success_count (fst (process_price create_fallback_data sample_loads
                          (sample_env gateway_down) initial_stats sample_request))
       \<le> execution_count (fst (process_price create_fallback_data sample_loads
                          (sample_env gateway_down) initial_stats sample_request))
   \<and> execution_count (fst (run (process_chat sample_loads) initial_stats two_calls)) = 2
   \<and> success_count (fst (run (process_chat sample_loads) initial_stats two_calls)) = 1
   \<and> success_rate (fst (run (process_chat sample_loads) initial_stats two_calls)) = 1 / 2"
proof -
  have inv: "success_count initial_stats \<le> execution_count initial_stats"
    by (simp add: initial_stats_def)
  note t = agent_statistics [where loads = sample_loads and calls = two_calls
      and df = create_fallback_data and ?st0.0 = initial_stats and e = "sample_env gateway_down"]
  have a: "success_count (fst (process_chat sample_loads (sample_env gateway_down) initial_stats
                          (chat_request ''Is this still available?'')))
       \<le> execution_count (fst (process_chat sample_loads (sample_env gateway_down) initial_stats
                          (chat_request ''Is this still available?'')))"
    using t [where d = "chat_request ''Is this still available?''"] inv by blast
  have b: "success_count (fst (process_price create_fallback_data sample_loads
                          (sample_env gateway_down) initial_stats sample_request))
       \<le> execution_count (fst (process_price create_fallback_data sample_loads
                          (sample_env gateway_down) initial_stats sample_request))"
    using t [where d = sample_request] inv by blast
  obtain st rs where r: "run (process_chat sample_loads) initial_stats two_calls = (st, rs)"
    by (cases "run (process_chat sample_loads) initial_stats two_calls")
  have rs: "map chat_ok rs = [True, False]"
  proof -
    have "map chat_ok (snd (run (process_chat sample_loads) initial_stats two_calls)) = [True, False]"
      by (simp add: two_calls_def chat_ok_def run_outcomes chat_safe_call chat_down_call
            del: run.simps(2))
    then show ?thesis by (simp add: r)
  qed
  have n: "length (filter chat_ok rs) = 1" "length (filter (\<lambda>r. \<not> chat_ok r) rs) = 1"
    using rs by (auto simp: map_eq_Cons_conv)
  from t [where d = sample_request] r n
  have "execution_count st = 2 \<and> success_count st = 1 \<and> success_rate st = 1 / 2"
    by (auto simp add: Let_def)
  with a b inv r show ?thesis by simp
qed

end
